theory Spec2Isabelle
  imports Main "HOL-Library.Char_ord" "HOL-Library.List_Lexorder"
begin

section \<open>AI Things Considered: the daily comic strip pipeline\<close>

text \<open>
  A shallow embedding of \<^verbatim>\<open>execution/ai_things_considered.py\<close>. Every function of the
  script is a HOL function of the same name. What the script reads from the outside world
  (the feed, the text and image generation services, the image decoder, the font files, the
  date) is a parameter; what it writes (files, sleeps, service requests) is recorded in an
  explicit \<open>world\<close> value that is passed through. Console output (\<^verbatim>\<open>print\<close>) is not modelled.
  A \<open>char\<close> is one code point below 256 (the Latin-1 range of Python's \<^verbatim>\<open>str\<close>).
\<close>

subsection \<open>Exceptions and results\<close>

text \<open>
  The instances of Python's \<^verbatim>\<open>Exception\<close> class the script can meet. A function that can
  raise returns \<open>exn + 'a\<close>, with \<open>Inl\<close> for the exception that leaves it.
\<close>

datatype exn =
    ValueError string
  | RuntimeError string
  | AttributeError
  | TypeError
  | IndexError
  | JSONDecodeError
  | UnidentifiedImageError
  | ServiceError string

subsection \<open>Python string operations\<close>

text \<open>
  \<^verbatim>\<open>str.isspace\<close> on one character, which is also what \<^verbatim>\<open>str.strip\<close> removes and what \<^verbatim>\<open>\s\<close>
  matches in a \<^verbatim>\<open>str\<close> pattern: below 256 these are the space, the controls 0x09 to 0x0D
  and 0x1C to 0x1F, the next-line control 0x85 and the no-break space 0xA0.
\<close>

definition py_isspace :: "char \<Rightarrow> bool" where
  "py_isspace c = (c \<in> set [CHR '' '', CHR 0x09, CHR 0x0A, CHR 0x0B, CHR 0x0C, CHR 0x0D,
                              CHR 0x1C, CHR 0x1D, CHR 0x1E, CHR 0x1F, CHR 0x85, CHR 0xA0])"

definition py_strip :: "string \<Rightarrow> string" where
  "py_strip s = rev (dropWhile py_isspace (rev (dropWhile py_isspace s)))"

text \<open>
  \<^verbatim>\<open>str.lower\<close>: below 256 the upper-case characters are the letters A to Z and the
  accented capitals 0xC0 to 0xDE without the multiplication sign 0xD7; each has its lower-case
  form 0x20 further on.
\<close>

definition upper_chars :: "char list" where
  "upper_chars = ''ABCDEFGHIJKLMNOPQRSTUVWXYZ'' @
       [CHR 0xC0, CHR 0xC1, CHR 0xC2, CHR 0xC3, CHR 0xC4, CHR 0xC5, CHR 0xC6, CHR 0xC7,
        CHR 0xC8, CHR 0xC9, CHR 0xCA, CHR 0xCB, CHR 0xCC, CHR 0xCD, CHR 0xCE, CHR 0xCF,
        CHR 0xD0, CHR 0xD1, CHR 0xD2, CHR 0xD3, CHR 0xD4, CHR 0xD5, CHR 0xD6, CHR 0xD8,
        CHR 0xD9, CHR 0xDA, CHR 0xDB, CHR 0xDC, CHR 0xDD, CHR 0xDE]"

definition lower_chars :: "char list" where
  "lower_chars = ''abcdefghijklmnopqrstuvwxyz'' @
       [CHR 0xE0, CHR 0xE1, CHR 0xE2, CHR 0xE3, CHR 0xE4, CHR 0xE5, CHR 0xE6, CHR 0xE7,
        CHR 0xE8, CHR 0xE9, CHR 0xEA, CHR 0xEB, CHR 0xEC, CHR 0xED, CHR 0xEE, CHR 0xEF,
        CHR 0xF0, CHR 0xF1, CHR 0xF2, CHR 0xF3, CHR 0xF4, CHR 0xF5, CHR 0xF6, CHR 0xF8,
        CHR 0xF9, CHR 0xFA, CHR 0xFB, CHR 0xFC, CHR 0xFD, CHR 0xFE]"

definition py_lower_char :: "char \<Rightarrow> char" where
  "py_lower_char c =
     (case map_of (zip upper_chars lower_chars) c of
        Some l \<Rightarrow> l
      | None \<Rightarrow> c)"

definition py_lower :: "string \<Rightarrow> string" where
  "py_lower s = map py_lower_char s"

definition py_startswith :: "string \<Rightarrow> string \<Rightarrow> bool" where
  "py_startswith s p = (take (length p) s = p)"

fun py_join :: "string \<Rightarrow> string list \<Rightarrow> string" where
  "py_join sep [] = []"
| "py_join sep [x] = x"
| "py_join sep (x # y # ys) = x @ sep @ py_join sep (y # ys)"

definition digit_char :: "nat \<Rightarrow> char" where
  "digit_char d = ''0123456789'' ! d"

fun py_str_nat :: "nat \<Rightarrow> string" where
  "py_str_nat n = (if n < 10 then [digit_char n] else py_str_nat (n div 10) @ [digit_char (n mod 10)])"

subsection \<open>Configuration\<close>

definition MAX_RETRIES :: nat where
  "MAX_RETRIES = 3"

definition RETRY_BASE_DELAY :: nat where
  "RETRY_BASE_DELAY = 2"

definition NUM_PANELS :: nat where
  "NUM_PANELS = 6"

definition MIN_PANELS_REQUIRED :: nat where
  "MIN_PANELS_REQUIRED = 4"

definition WEB_MAX_WIDTH :: nat where
  "WEB_MAX_WIDTH = 1000"

definition WEB_QUALITY :: nat where
  "WEB_QUALITY = 85"

definition STYLE_PREFIX :: string where
  "STYLE_PREFIX = ''Vintage comic panel illustration. Muted earth tone palette - cream, warm brown, dusty blue, sage green, faded ochre. Flat geometric shapes with clean precise linework. Diagrammatic, nostalgic mid-century newspaper illustration aesthetic. Hand-drawn feel with architectural precision.''"

subsection \<open>Stories and the text generation service\<close>

record story =
  title :: string
  description :: string
  link :: string
  published :: string

text \<open>
  \<^verbatim>\<open>client.models.generate_content(model="gemini-2.5-flash", contents=prompt)\<close>: the service
  maps the prompt to an exception or to a response, of which the script reads only
  \<^verbatim>\<open>response.text\<close> (\<open>None\<close> when the response carries no text).
\<close>

type_synonym text_client = "string \<Rightarrow> exn + string option"

definition response_text_strip :: "string option \<Rightarrow> exn + string" where
  "response_text_strip t = (case t of None \<Rightarrow> Inl AttributeError | Some s \<Rightarrow> Inr (py_strip s))"

subsection \<open>generate_image_prompt\<close>

definition image_prompt_request :: "story \<Rightarrow> string" where
  "image_prompt_request s =
     ''You are a visual translator. Given a news story, create an image prompt that captures its essence in a vintage comic panel aesthetic.\<newline>\<newline>STORY:\<newline>Title: ''
     @ title s @ ''\<newline>Description: '' @ description s
     @ ''\<newline>\<newline>RULES:\<newline>- Capture the FEELING and MEANING, not literal events\<newline>- One clear visual idea\<newline>- Use symbolic imagery over literal portraits\<newline>- Focus on: scenes, objects, silhouettes, symbols, architecture\<newline>- Vary composition: bird's eye, worm's eye, medium shot, wide shot\<newline>- Text: ONE key word/phrase max, integrated naturally (sign, headline) - or skip entirely\<newline>\<newline>Return ONLY the image prompt, no explanation. Start with the style, then the scene.''"

definition generate_image_prompt :: "text_client \<Rightarrow> story \<Rightarrow> exn + string" where
  "generate_image_prompt client s =
     (case client (image_prompt_request s) of
        Inl e \<Rightarrow> Inl e
      | Inr response \<Rightarrow>
          (case response_text_strip response of
             Inl e \<Rightarrow> Inl e
           | Inr image_prompt \<Rightarrow>
               if \<not> py_startswith (py_lower image_prompt) ''vintage''
               then Inr (STYLE_PREFIX @ '' '' @ image_prompt)
               else Inr image_prompt))"

subsection \<open>select_stories\<close>

definition story_listing :: "nat \<times> story \<Rightarrow> string" where
  "story_listing p = (case p of (i, s) \<Rightarrow>
     ''['' @ py_str_nat (i + 1) @ ''] '' @ title s @ ''\<newline>'' @ description s)"

definition selection_prompt :: "story list \<Rightarrow> string" where
  "selection_prompt stories =
     (let stories_text = py_join ''\<newline>\<newline>'' (map story_listing (enumerate 0 stories)) in
      ''You are selecting stories for a daily comic strip called \"AI Things Considered\" based on NPR's All Things Considered.\<newline>\<newline>From these ''
      @ py_str_nat (length stories)
      @ '' stories, select exactly 6 that will make the best comic panels. Consider:\<newline>1. Visual potential - can this translate to a compelling image? Concrete events > abstract policy debates\<newline>2. Topic diversity - mix politics, culture, science, international, human interest\<newline>3. Significance - major breaking news takes priority\<newline>4. Tonal variety - balance serious with lighter stories\<newline>\<newline>STORIES:\<newline>''
      @ stories_text
      @ ''\<newline>\<newline>Return ONLY a JSON array of the 6 selected story numbers (1-indexed), in the order they should appear in the comic. Example: [3, 7, 1, 12, 5, 9]'')"

text \<open>
  \<^verbatim>\<open>re.search(r'\[[\d,\s]+\]', response_text)\<close>. The character class holds the digits, the
  comma and Python's whitespace; the closing bracket is not in it, so at a given opening
  bracket the only possible match is the longest run of class characters, which must be
  non-empty and followed by the closing bracket. The leftmost match is returned
  (\<^verbatim>\<open>match.group()\<close>).
\<close>

definition is_digit :: "char \<Rightarrow> bool" where
  "is_digit c = (c \<in> set ''0123456789'')"

definition re_class :: "char \<Rightarrow> bool" where
  "re_class c = (is_digit c \<or> c = CHR '','' \<or> py_isspace c)"

fun re_search_array :: "string \<Rightarrow> string option" where
  "re_search_array [] = None"
| "re_search_array (c # cs) =
     (if c = CHR ''['' \<and> takeWhile re_class cs \<noteq> [] \<and> py_startswith (dropWhile re_class cs) '']''
      then Some (c # takeWhile re_class cs @ '']'')
      else re_search_array cs)"

text \<open>
  \<^verbatim>\<open>json.loads\<close> on a string of the matched shape: an opening bracket, characters of the
  class, a closing bracket. JSON accepts only space, tab, line feed and carriage return as
  whitespace, a number without a leading zero (or the single digit zero), and no empty or
  trailing element; an array of whitespace alone is the empty list. The elements are read
  from left to right and the first failure is the one raised: \<^verbatim>\<open>JSONDecodeError\<close> for a
  syntax error, \<^verbatim>\<open>ValueError\<close> for a number of more than 4300 digits, which CPython refuses
  to convert.
\<close>

definition json_ws :: "char \<Rightarrow> bool" where
  "json_ws c = (c \<in> set [CHR '' '', CHR 0x09, CHR 0x0A, CHR 0x0D])"

fun split_commas :: "string \<Rightarrow> string list" where
  "split_commas [] = [[]]"
| "split_commas (c # cs) =
     (if c = CHR '','' then [] # split_commas cs
      else (case split_commas cs of [] \<Rightarrow> [[c]] | p # ps \<Rightarrow> (c # p) # ps))"

definition digit_val :: "char \<Rightarrow> nat" where
  "digit_val c = length (takeWhile (\<lambda>d. d \<noteq> c) ''0123456789'')"

definition nat_of_digits :: "string \<Rightarrow> nat" where
  "nat_of_digits ds = foldl (\<lambda>a c. 10 * a + digit_val c) 0 ds"

definition json_number :: "string \<Rightarrow> bool" where
  "json_number ds = (ds \<noteq> [] \<and> (hd ds \<noteq> CHR ''0'' \<or> length ds = 1))"

definition INT_MAX_STR_DIGITS :: nat where
  "INT_MAX_STR_DIGITS = 4300"

definition int_too_long :: "nat \<Rightarrow> exn" where
  "int_too_long n =
     ValueError (''Exceeds the limit ('' @ py_str_nat INT_MAX_STR_DIGITS
       @ '' digits) for integer string conversion: value has '' @ py_str_nat n
       @ '' digits; use sys.set_int_max_str_digits() to increase the limit'')"

definition json_element :: "string \<Rightarrow> exn + nat" where
  "json_element piece =
     (let t = dropWhile json_ws piece;
          ds = takeWhile is_digit t;
          rest = dropWhile is_digit t
      in if \<not> json_number ds then Inl JSONDecodeError
         else if length ds > INT_MAX_STR_DIGITS then Inl (int_too_long (length ds))
         else if \<not> list_all json_ws rest then Inl JSONDecodeError
         else Inr (nat_of_digits ds))"

fun collect :: "(exn + 'a) list \<Rightarrow> exn + 'a list" where
  "collect [] = Inr []"
| "collect (r # rs) =
     (case r of
        Inl e \<Rightarrow> Inl e
      | Inr v \<Rightarrow> (case collect rs of Inl e \<Rightarrow> Inl e | Inr vs \<Rightarrow> Inr (v # vs)))"

definition json_loads :: "string \<Rightarrow> exn + nat list" where
  "json_loads m =
     (let inner = butlast (tl m)
      in if list_all json_ws inner then Inr []
         else collect (map json_element (split_commas inner)))"

text \<open>\<^verbatim>\<open>xs[i]\<close>: a negative index counts from the end, an index out of range raises.\<close>

definition py_getitem :: "'a list \<Rightarrow> int \<Rightarrow> exn + 'a" where
  "py_getitem xs i =
     (if 0 \<le> i \<and> i < int (length xs) then Inr (xs ! nat i)
      else if i < 0 \<and> 0 \<le> i + int (length xs) then Inr (xs ! nat (i + int (length xs)))
      else Inl IndexError)"

definition select_stories :: "text_client \<Rightarrow> story list \<Rightarrow> exn + story list" where
  "select_stories client stories =
     (case client (selection_prompt stories) of
        Inl e \<Rightarrow> Inl e
      | Inr response \<Rightarrow>
          (case response_text_strip response of
             Inl e \<Rightarrow> Inl e
           | Inr response_text \<Rightarrow>
               (case re_search_array response_text of
                  Some m \<Rightarrow>
                    (case json_loads m of
                       Inl e \<Rightarrow> Inl e
                     | Inr indices \<Rightarrow>
                         collect (map (\<lambda>i. py_getitem stories (int i - 1))
                                      (take NUM_PANELS indices)))
                | None \<Rightarrow> Inr (take NUM_PANELS stories))))"

subsection \<open>Images and the image generation service\<close>

text \<open>
  A panel image is what \<^verbatim>\<open>Image.open\<close> made of the bytes the service sent, possibly
  resized. The response of the image service has the shape the script reads:
  \<^verbatim>\<open>response.candidates[0].content.parts\<close>, each part with an optional \<^verbatim>\<open>inline_data\<close>
  whose \<^verbatim>\<open>data\<close> are the image bytes. Every level may be missing (\<open>None\<close>).
\<close>

datatype image =
    Opened "nat list"
  | Resized image "int \<times> int"

record blob =
  mime_type :: string
  data :: "nat list"

record part =
  part_text :: "string option"
  inline_data :: "blob option"

record content_obj =
  parts :: "part list option"

record candidate =
  content :: "content_obj option"

record response =
  candidates :: "candidate list option"

text \<open>
  The image service answers a request, identified by the prompt, the panel number and the
  attempt number, with an exception or a response. \<^verbatim>\<open>Image.open\<close> raises on bytes it does not
  recognise; which bytes it recognises is a parameter.
\<close>

type_synonym image_client = "string \<Rightarrow> nat \<Rightarrow> nat \<Rightarrow> exn + response"

definition Image_open :: "(nat list \<Rightarrow> bool) \<Rightarrow> nat list \<Rightarrow> exn + image" where
  "Image_open recognised bytes =
     (if recognised bytes then Inr (Opened bytes) else Inl UnidentifiedImageError)"

subsection \<open>The strip, the metadata, the archive and the world\<close>

type_synonym color = "nat \<times> nat \<times> nat"

datatype font = Truetype string nat | Default_font

datatype draw_op =
    Draw_text "int \<times> int" string font color
  | Draw_rectangle "int \<times> int \<times> int \<times> int" color int
  | Paste image "int \<times> int"

record canvas =
  width :: int
  height :: int
  background :: color
  drawn :: "draw_op list"

datatype dimension = Exact int | Float_scaled int int int

record web_image =
  source :: canvas
  web_size :: "dimension \<times> dimension"

text \<open>
  The JSON documents. A story entry has the keys \<^verbatim>\<open>panel\<close>, \<^verbatim>\<open>title\<close>, \<^verbatim>\<open>summary\<close>,
  \<^verbatim>\<open>source_url\<close>; the metadata has \<^verbatim>\<open>date\<close>, \<^verbatim>\<open>image\<close>, \<^verbatim>\<open>stories\<close>; an archive entry has
  \<^verbatim>\<open>date\<close> and \<^verbatim>\<open>image\<close>.
\<close>

record story_entry =
  panel :: nat
  entry_title :: string
  summary :: string
  source_url :: string

record metadata =
  date :: string
  image_file :: string
  stories :: "story_entry list"

record comic =
  comic_date :: string
  comic_image :: string

text \<open>
  What the script leaves behind: the requests it sent to the image service and the sleeps
  it took, in order, and the files of its directories, each kind of file under its name.
  \<^verbatim>\<open>archive.json\<close> is \<open>None\<close> while the file does not exist.
\<close>

datatype event = Request nat nat | Sleep nat

record world =
  log :: "event list"
  temp_dir :: "(string \<times> image) list"
  fullres_dir :: "(string \<times> canvas) list"
  web_jpgs :: "(string \<times> web_image) list"
  web_jsons :: "(string \<times> metadata) list"
  archive_json :: "comic list option"

definition put_file :: "string \<Rightarrow> 'a \<Rightarrow> (string \<times> 'a) list \<Rightarrow> (string \<times> 'a) list" where
  "put_file name v files = (name, v) # filter (\<lambda>f. fst f \<noteq> name) files"

definition read_file :: "(string \<times> 'a) list \<Rightarrow> string \<Rightarrow> 'a option" where
  "read_file files name = map_of files name"

subsection \<open>generate_panel_image\<close>

text \<open>
  How a block of statements ends: it runs to its end, it returns a value from the
  function, or it raises.
\<close>

datatype 'a ctl = Normal | Return 'a | Raise exn

fun scan_parts :: "(nat list \<Rightarrow> bool) \<Rightarrow> part list \<Rightarrow> image ctl" where
  "scan_parts recognised [] = Normal"
| "scan_parts recognised (p # ps) =
     (case inline_data p of
        Some b \<Rightarrow> (case Image_open recognised (data b) of Inl e \<Rightarrow> Raise e | Inr im \<Rightarrow> Return im)
      | None \<Rightarrow> scan_parts recognised ps)"

text \<open>The body of the \<^verbatim>\<open>try\<close> block of one attempt.\<close>

definition attempt_body ::
  "image_client \<Rightarrow> (nat list \<Rightarrow> bool) \<Rightarrow> string \<Rightarrow> nat \<Rightarrow> nat \<Rightarrow> image ctl" where
  "attempt_body client recognised prompt panel_num attempt =
     (case client prompt panel_num attempt of
        Inl e \<Rightarrow> Raise e
      | Inr response \<Rightarrow>
          (case candidates response of
             None \<Rightarrow> Raise (ValueError ''No candidates in response'')
           | Some [] \<Rightarrow> Raise (ValueError ''No candidates in response'')
           | Some (c # cs) \<Rightarrow>
               (case content c of
                  None \<Rightarrow> Raise AttributeError
                | Some ct \<Rightarrow>
                    (case parts ct of
                       None \<Rightarrow> Raise TypeError
                     | Some ps \<Rightarrow>
                         (case scan_parts recognised ps of
                            Normal \<Rightarrow> Raise (ValueError ''No image data in response'')
                          | r \<Rightarrow> r)))))"

text \<open>The \<^verbatim>\<open>except Exception\<close> handler: sleep unless this was the last attempt.\<close>

definition on_exception :: "nat \<Rightarrow> world \<Rightarrow> world" where
  "on_exception attempt w =
     (if attempt < MAX_RETRIES
      then (let delay = RETRY_BASE_DELAY * (2 ^ (attempt - 1)) in w\<lparr>log := log w @ [Sleep delay]\<rparr>)
      else w)"

definition try_attempt ::
  "image_client \<Rightarrow> (nat list \<Rightarrow> bool) \<Rightarrow> string \<Rightarrow> nat \<Rightarrow> nat \<Rightarrow> world \<Rightarrow> image ctl \<times> world" where
  "try_attempt client recognised prompt panel_num attempt w =
     (let w1 = w\<lparr>log := log w @ [Request panel_num attempt]\<rparr> in
      case attempt_body client recognised prompt panel_num attempt of
        Raise e \<Rightarrow> (Normal, on_exception attempt w1)
      | r \<Rightarrow> (r, w1))"

fun attempts ::
  "image_client \<Rightarrow> (nat list \<Rightarrow> bool) \<Rightarrow> string \<Rightarrow> nat \<Rightarrow> nat list \<Rightarrow> world \<Rightarrow> image ctl \<times> world" where
  "attempts client recognised prompt panel_num [] w = (Normal, w)"
| "attempts client recognised prompt panel_num (attempt # rest) w =
     (case try_attempt client recognised prompt panel_num attempt w of
        (Normal, w') \<Rightarrow> attempts client recognised prompt panel_num rest w'
      | (r, w') \<Rightarrow> (r, w'))"

definition generate_panel_image ::
  "image_client \<Rightarrow> (nat list \<Rightarrow> bool) \<Rightarrow> string \<Rightarrow> nat \<Rightarrow> world \<Rightarrow> (exn + image option) \<times> world" where
  "generate_panel_image client recognised prompt panel_num w =
     (case attempts client recognised prompt panel_num [1 ..< MAX_RETRIES + 1] w of
        (Normal, w') \<Rightarrow> (Inr None, w')
      | (Return im, w') \<Rightarrow> (Inr (Some im), w')
      | (Raise e, w') \<Rightarrow> (Inl e, w'))"

text \<open>
  Whether an attempt returns an image, and the inline data the script looks at: the first
  part with inline data among the parts of the first candidate.
\<close>

definition attempt_succeeds :: "image_client \<Rightarrow> (nat list \<Rightarrow> bool) \<Rightarrow> string \<Rightarrow> nat \<Rightarrow> nat \<Rightarrow> bool" where
  "attempt_succeeds client recognised prompt panel_num attempt =
     (case attempt_body client recognised prompt panel_num attempt of Return im \<Rightarrow> True | _ \<Rightarrow> False)"

definition first_inline :: "part list \<Rightarrow> blob option" where
  "first_inline ps = (case find (\<lambda>p. inline_data p \<noteq> None) ps of None \<Rightarrow> None | Some p \<Rightarrow> inline_data p)"

definition first_candidate_image :: "response \<Rightarrow> blob option" where
  "first_candidate_image resp =
     (case candidates resp of
        Some (c # cs) \<Rightarrow>
          (case content c of
             Some ct \<Rightarrow> (case parts ct of Some ps \<Rightarrow> first_inline ps | None \<Rightarrow> None)
           | None \<Rightarrow> None)
      | _ \<Rightarrow> None)"

text \<open>
  The success condition as the specification words it: the response contains at least one
  candidate whose content parts include inline binary image data.
\<close>

definition spec_has_image :: "response \<Rightarrow> bool" where
  "spec_has_image resp =
     (case candidates resp of
        None \<Rightarrow> False
      | Some cs \<Rightarrow>
          list_ex (\<lambda>c. case content c of
                          None \<Rightarrow> False
                        | Some ct \<Rightarrow> (case parts ct of
                                        None \<Rightarrow> False
                                      | Some ps \<Rightarrow> list_ex (\<lambda>p. inline_data p \<noteq> None) ps)) cs)"

subsection \<open>optimize_for_web\<close>

text \<open>
  A strip wider than \<open>max_width\<close> is resized to that width and to the height
  \<^verbatim>\<open>int(image.height * (max_width / image.width))\<close>, which the script computes in floating
  point. The model keeps that expression as it stands, as \<open>Float_scaled height max_width width\<close>,
  and does not evaluate it. (\<^verbatim>\<open>resize\<close> refuses a height of zero; the strip of
  \<open>compose_comic_strip\<close>, the only image the script passes, is 1284 by 1372.)
\<close>

definition optimize_for_web :: "canvas \<Rightarrow> web_image" where
  "optimize_for_web im =
     (if width im > int WEB_MAX_WIDTH
      then \<lparr>source = im,
            web_size = (Exact (int WEB_MAX_WIDTH),
                        Float_scaled (height im) (int WEB_MAX_WIDTH) (width im))\<rparr>
      else \<lparr>source = im, web_size = (Exact (width im), Exact (height im))\<rparr>)"

subsection \<open>compose_comic_strip\<close>

definition PANEL_WIDTH :: int where "PANEL_WIDTH = 400"
definition PANEL_HEIGHT :: int where "PANEL_HEIGHT = 600"
definition COLS :: int where "COLS = 3"
definition ROWS :: int where "ROWS = 2"
definition GUTTER :: int where "GUTTER = 12"
definition BORDER :: int where "BORDER = 3"
definition HEADER_HEIGHT :: int where "HEADER_HEIGHT = 100"
definition MARGIN :: int where "MARGIN = 30"
definition BG_COLOR :: color where "BG_COLOR = (252, 249, 242)"
definition BORDER_COLOR :: color where "BORDER_COLOR = (40, 35, 30)"
definition TEXT_COLOR :: color where "TEXT_COLOR = (40, 35, 30)"

definition draw :: "canvas \<Rightarrow> draw_op \<Rightarrow> canvas" where
  "draw strip op = strip\<lparr>drawn := drawn strip @ [op]\<rparr>"

fun place_panels :: "(nat \<times> image option) list \<Rightarrow> canvas \<Rightarrow> canvas" where
  "place_panels [] strip = strip"
| "place_panels ((i, slot) # rest) strip =
     (case slot of
        None \<Rightarrow> place_panels rest strip
      | Some im \<Rightarrow>
          (let col = int i mod COLS;
               row = int i div COLS;
               x = MARGIN + col * (PANEL_WIDTH + GUTTER);
               y = MARGIN + HEADER_HEIGHT + row * (PANEL_HEIGHT + GUTTER);
               panel_resized = Resized im (PANEL_WIDTH, PANEL_HEIGHT);
               strip1 = draw strip
                 (Draw_rectangle (x - BORDER, y - BORDER, x + PANEL_WIDTH + BORDER, y + PANEL_HEIGHT + BORDER)
                    BORDER_COLOR BORDER);
               strip2 = draw strip1 (Paste panel_resized (x, y))
           in place_panels rest strip2))"

text \<open>
  Whether a font file loads is a parameter; if either of the two fails, both fonts are the
  built-in one.
\<close>

definition compose_comic_strip :: "(string \<Rightarrow> bool) \<Rightarrow> image option list \<Rightarrow> string \<Rightarrow> canvas" where
  "compose_comic_strip font_loads panels date_str =
     (let strip_width = MARGIN * 2 + COLS * PANEL_WIDTH + (COLS - 1) * GUTTER;
          strip_height = MARGIN * 2 + HEADER_HEIGHT + ROWS * PANEL_HEIGHT + (ROWS - 1) * GUTTER;
          strip = \<lparr>width = strip_width, height = strip_height, background = BG_COLOR, drawn = []\<rparr>;
          (title_font, date_font) =
            (if font_loads ''Oswald-Bold.ttf'' \<and> font_loads ''Oswald-Regular.ttf''
             then (Truetype ''Oswald-Bold.ttf'' 48, Truetype ''Oswald-Regular.ttf'' 22)
             else (Default_font, Default_font));
          strip1 = draw strip (Draw_text (MARGIN, MARGIN) ''AI THINGS CONSIDERED'' title_font TEXT_COLOR);
          strip2 = draw strip1 (Draw_text (MARGIN, MARGIN + 55) date_str date_font TEXT_COLOR)
      in place_panels (enumerate 0 panels) strip2)"

text \<open>
  The geometry as the specification words it: slot \<open>i\<close> is in column \<open>i mod COLS\<close> and row
  \<open>i div COLS\<close>, its cell origin is the margin plus the column times cell width and gutter,
  and the margin plus the header plus the row times cell height and gutter; the border
  rectangle surrounds the cell at the stroke width.
\<close>

definition spec_cell_origin :: "nat \<Rightarrow> int \<times> int" where
  "spec_cell_origin i =
     (MARGIN + (int i mod COLS) * (PANEL_WIDTH + GUTTER),
      MARGIN + HEADER_HEIGHT + (int i div COLS) * (PANEL_HEIGHT + GUTTER))"

definition spec_border :: "nat \<Rightarrow> draw_op" where
  "spec_border i =
     (case spec_cell_origin i of (x, y) \<Rightarrow>
        Draw_rectangle (x - BORDER, y - BORDER, x + PANEL_WIDTH + BORDER, y + PANEL_HEIGHT + BORDER)
          BORDER_COLOR BORDER)"

subsection \<open>save_metadata, update_latest_images, update_archive\<close>

definition story_entry_of :: "nat \<times> story \<Rightarrow> story_entry" where
  "story_entry_of p = (case p of (i, s) \<Rightarrow>
     \<lparr>panel = i + 1, entry_title = title s, summary = description s, source_url = link s\<rparr>)"

definition save_metadata :: "story list \<Rightarrow> string \<Rightarrow> world \<Rightarrow> metadata \<times> world" where
  "save_metadata stories_arg date_str w =
     (let metadata = \<lparr>date = date_str, image_file = date_str @ ''.jpg'',
                       stories = map story_entry_of (enumerate 0 stories_arg)\<rparr>;
          w1 = w\<lparr>web_jsons := put_file (date_str @ ''.json'') metadata (web_jsons w)\<rparr>;
          w2 = w1\<lparr>web_jsons := put_file ''latest.json'' metadata (web_jsons w1)\<rparr>
      in (metadata, w2))"

text \<open>The glob pattern \<^verbatim>\<open>????-??-??.jpg\<close> on a file name.\<close>

definition glob_dated_jpg :: "string \<Rightarrow> bool" where
  "glob_dated_jpg name =
     (length name = 14 \<and> name ! 4 = CHR ''-'' \<and> name ! 7 = CHR ''-'' \<and> drop 10 name = ''.jpg'')"

definition copy_jpg :: "string \<Rightarrow> string \<Rightarrow> world \<Rightarrow> world" where
  "copy_jpg src dst w =
     (case read_file (web_jpgs w) src of
        Some v \<Rightarrow> w\<lparr>web_jpgs := put_file dst v (web_jpgs w)\<rparr>
      | None \<Rightarrow> w)"

definition update_latest_images :: "world \<Rightarrow> world" where
  "update_latest_images w =
     (let comics = rev (sort (filter glob_dated_jpg (remdups (map fst (web_jpgs w)))));
          w1 = (if length comics \<ge> 1 then copy_jpg (comics ! 0) ''latest-1.jpg'' w else w);
          w2 = (if length comics \<ge> 2 then copy_jpg (comics ! 1) ''latest-2.jpg'' w1 else w1)
      in w2)"

definition update_archive :: "string \<Rightarrow> world \<Rightarrow> world" where
  "update_archive date_str w =
     (let archive = (case archive_json w of Some comics \<Rightarrow> comics | None \<Rightarrow> []);
          new_entry = \<lparr>comic_date = date_str, comic_image = date_str @ ''.jpg''\<rparr>;
          existing_dates = map comic_date archive
      in if date_str \<notin> set existing_dates
         then w\<lparr>archive_json := Some (new_entry # archive)\<rparr>
         else w)"

text \<open>How many entries of the archive document carry a given date.\<close>

definition entries_for :: "string \<Rightarrow> world \<Rightarrow> nat" where
  "entries_for d w =
     length (filter (\<lambda>c. comic_date c = d) (case archive_json w of Some comics \<Rightarrow> comics | None \<Rightarrow> []))"

subsection \<open>main\<close>

record services =
  feed :: "story list"
  text_service :: text_client
  image_service :: image_client
  recognised_bytes :: "nat list \<Rightarrow> bool"
  font_loads :: "string \<Rightarrow> bool"

fun generate_panels ::
  "image_client \<Rightarrow> (nat list \<Rightarrow> bool) \<Rightarrow> (nat \<times> string) list \<Rightarrow> world
     \<Rightarrow> (exn + image option list) \<times> world" where
  "generate_panels client recognised [] w = (Inr [], w)"
| "generate_panels client recognised ((i, prompt) # rest) w =
     (case generate_panel_image client recognised prompt (i + 1) w of
        (Inl e, w1) \<Rightarrow> (Inl e, w1)
      | (Inr slot, w1) \<Rightarrow>
          (let w2 = (case slot of
                       Some im \<Rightarrow>
                         w1\<lparr>temp_dir := put_file (''panel_'' @ py_str_nat (i + 1) @ ''.png'') im (temp_dir w1)\<rparr>
                     | None \<Rightarrow> w1)
           in case generate_panels client recognised rest w2 of
                (Inl e, w3) \<Rightarrow> (Inl e, w3)
              | (Inr panels, w3) \<Rightarrow> (Inr (slot # panels), w3)))"

definition successful :: "image option list \<Rightarrow> nat" where
  "successful panels = length (filter (\<lambda>p. p \<noteq> None) panels)"

definition shortfall_message :: "nat \<Rightarrow> string" where
  "shortfall_message successful_panels =
     ''Only '' @ py_str_nat successful_panels @ ''/'' @ py_str_nat NUM_PANELS
     @ '' panels generated. Minimum required: '' @ py_str_nat MIN_PANELS_REQUIRED @ ''. Aborting.''"

text \<open>
  The date (\<open>today\<close>, of the form \<^verbatim>\<open>YYYY-MM-DD\<close>) and its display form come from the clock or
  the command line and are parameters.
\<close>

definition main :: "services \<Rightarrow> string \<Rightarrow> string \<Rightarrow> world \<Rightarrow> (exn + metadata) \<times> world" where
  "main sv today today_display w =
     (let all_stories = feed sv in
      case select_stories (text_service sv) all_stories of
        Inl e \<Rightarrow> (Inl e, w)
      | Inr selected_stories \<Rightarrow>
          (case collect (map (generate_image_prompt (text_service sv)) selected_stories) of
             Inl e \<Rightarrow> (Inl e, w)
           | Inr prompts \<Rightarrow>
               (case generate_panels (image_service sv) (recognised_bytes sv) (enumerate 0 prompts) w of
                  (Inl e, w1) \<Rightarrow> (Inl e, w1)
                | (Inr panels, w1) \<Rightarrow>
                    (let successful_panels = successful panels in
                     if successful_panels < MIN_PANELS_REQUIRED
                     then (Inl (RuntimeError (shortfall_message successful_panels)), w1)
                     else
                       (let strip = compose_comic_strip (font_loads sv) panels today_display;
                            w2 = w1\<lparr>fullres_dir := put_file (today @ ''.png'') strip (fullres_dir w1)\<rparr>;
                            web_strip = optimize_for_web strip;
                            w3 = w2\<lparr>web_jpgs := put_file (today @ ''.jpg'') web_strip (web_jpgs w2)\<rparr>;
                            (metadata, w4) = save_metadata selected_stories today w3;
                            w5 = update_latest_images w4;
                            w6 = update_archive today w5
                        in (Inr metadata, w6))))))"

text \<open>A date string of the form \<^verbatim>\<open>YYYY-MM-DD\<close>, as \<^verbatim>\<open>strftime("%Y-%m-%d")\<close> writes it.\<close>

definition iso_date :: "string \<Rightarrow> bool" where
  "iso_date d =
     (length d = 10 \<and> d ! 4 = CHR ''-'' \<and> d ! 7 = CHR ''-''
      \<and> list_all is_digit (take 4 d @ take 2 (drop 5 d) @ drop 8 d))"

text \<open>
  The files a run publishes: the strips, the metadata documents with the latest pointers,
  and the archive. The scratch directory and the log are not among them.
\<close>

definition published_files ::
  "world \<Rightarrow> (string \<times> canvas) list \<times> (string \<times> web_image) list \<times> (string \<times> metadata) list \<times> comic list option" where
  "published_files w = (fullres_dir w, web_jpgs w, web_jsons w, archive_json w)"

subsection \<open>Example inputs\<close>

text \<open>
  Concrete services, responses and worlds on which the properties below are exercised: a
  text service with a fixed answer, a feed of numbered stories, image services that always
  answer, always fail, fail on the first attempt only, or fail for one panel, and responses
  with their image data in the first or in the second candidate.
\<close>

definition answering :: "string \<Rightarrow> text_client" where
  "answering txt prompt = Inr (Some txt)"

definition numbered_feed :: "nat \<Rightarrow> story list" where
  "numbered_feed n =
     map (\<lambda>k. \<lparr>title = py_str_nat k, description = [], link = [], published = []\<rparr>) [1 ..< Suc n]"

definition image_part :: "nat list \<Rightarrow> part" where
  "image_part bytes = \<lparr>part_text = None, inline_data = Some \<lparr>mime_type = ''image/png'', data = bytes\<rparr>\<rparr>"

definition text_part :: "string \<Rightarrow> part" where
  "text_part t = \<lparr>part_text = Some t, inline_data = None\<rparr>"

definition candidate_of :: "part list \<Rightarrow> candidate" where
  "candidate_of ps = \<lparr>content = Some \<lparr>parts = Some ps\<rparr>\<rparr>"

definition response_of :: "candidate list \<Rightarrow> response" where
  "response_of cs = \<lparr>candidates = Some cs\<rparr>"

definition serving :: "response \<Rightarrow> image_client" where
  "serving resp prompt panel_num attempt = Inr resp"

definition failing :: image_client where
  "failing prompt panel_num attempt = Inl (ServiceError ''unavailable'')"

definition failing_once :: "response \<Rightarrow> image_client" where
  "failing_once resp prompt panel_num attempt =
     (if attempt = 1 then Inl (ServiceError ''unavailable'') else Inr resp)"

definition any_bytes :: "nat list \<Rightarrow> bool" where
  "any_bytes bytes = True"

definition empty_world :: world where
  "empty_world = \<lparr>log = [], temp_dir = [], fullres_dir = [], web_jpgs = [], web_jsons = [],
                   archive_json = None\<rparr>"

definition second_candidate_response :: response where
  "second_candidate_response =
     response_of [candidate_of [text_part ''Here is your panel''],
                  candidate_of [image_part [137, 80, 78, 71]]]"

definition two_images_response :: response where
  "two_images_response =
     response_of [candidate_of [text_part ''Here is your panel'', image_part [137, 80], image_part [255, 216]]]"

definition five_of_six :: "image option list" where
  "five_of_six = [Some (Opened [1]), Some (Opened [2]), Some (Opened [3]), None,
                  Some (Opened [5]), Some (Opened [6])]"

definition all_fonts :: "string \<Rightarrow> bool" where
  "all_fonts name = True"

definition duplicated_archive :: world where
  "duplicated_archive =
     empty_world\<lparr>archive_json :=
       Some [\<lparr>comic_date = ''2026-01-16'', comic_image = ''2026-01-16.jpg''\<rparr>,
             \<lparr>comic_date = ''2026-01-16'', comic_image = ''2026-01-16.jpg''\<rparr>]\<rparr>"

definition failing_for_panel :: "nat \<Rightarrow> response \<Rightarrow> image_client" where
  "failing_for_panel k resp prompt panel_num attempt =
     (if panel_num = k then Inl (ServiceError ''unavailable'') else Inr resp)"

definition studio :: "image_client \<Rightarrow> services" where
  "studio ic = \<lparr>feed = numbered_feed 7, text_service = answering ''none'', image_service = ic,
                recognised_bytes = any_bytes, font_loads = all_fonts\<rparr>"

section \<open>Properties\<close>

subsection \<open>Helper facts on strings\<close>

lemma STYLE_PREFIX_split: "STYLE_PREFIX = ''Vintage'' @ drop 7 STYLE_PREFIX"
  by (simp add: STYLE_PREFIX_def)

lemma py_lower_Vintage: "py_lower ''Vintage'' = ''vintage''"
  by (simp add: py_lower_def py_lower_char_def upper_chars_def lower_chars_def)

lemma STYLE_PREFIX_lower_vintage: "py_startswith (py_lower (STYLE_PREFIX @ rest)) ''vintage''"
proof -
  have "py_lower (STYLE_PREFIX @ rest) =
        py_lower ''Vintage'' @ py_lower (drop 7 STYLE_PREFIX @ rest)"
    by (subst STYLE_PREFIX_split) (simp only: py_lower_def map_append append_assoc)
  then show ?thesis
    by (simp add: py_lower_Vintage py_startswith_def)
qed

subsection \<open>The prompt synthesizer\<close>

lemma strip_nbsp_vintage: "py_strip (CHR 0xA0 # ''Vintage poster'') = ''Vintage poster''"
  by (simp add: py_strip_def py_isspace_def)

lemma lower_vintage_poster: "py_startswith (py_lower ''Vintage poster'') ''vintage''"
  by (simp add: py_startswith_def py_lower_def py_lower_char_def upper_chars_def lower_chars_def)

text \<open>
  C8. Whatever text the service answers for the story, the illustration instruction is the
  whitespace-trimmed answer when that already begins, ignoring case, with \<open>vintage\<close>;
  otherwise it is \<open>STYLE_PREFIX\<close>, one space, and the trimmed answer. In both cases the
  instruction begins, ignoring case, with \<open>vintage\<close>.
\<close>

theorem generate_image_prompt_style:
  assumes "client (image_prompt_request s) = Inr (Some txt)"
  shows "generate_image_prompt client s =
           Inr (if py_startswith (py_lower (py_strip txt)) ''vintage''
                then py_strip txt
                else STYLE_PREFIX @ '' '' @ py_strip txt)
         \<and> (\<exists>r. generate_image_prompt client s = Inr r \<and> py_startswith (py_lower r) ''vintage'')"
  using assms
  by (simp add: generate_image_prompt_def response_text_strip_def STYLE_PREFIX_lower_vintage)

theorem generate_image_prompt_style_witness:
  "generate_image_prompt (\<lambda>p. Inr (Some ''  A lone microphone.\<newline>''))
     \<lparr>title = ''T'', description = ''D'', link = ''L'', published = ''P''\<rparr>
   = Inr (STYLE_PREFIX @ '' A lone microphone.'')
   \<and> generate_image_prompt (\<lambda>p. Inr (Some (CHR 0xA0 # ''Vintage poster'')))
     \<lparr>title = ''T'', description = ''D'', link = ''L'', published = ''P''\<rparr>
   = Inr ''Vintage poster''"
proof -
  have a: "generate_image_prompt (\<lambda>p. Inr (Some ''  A lone microphone.\<newline>''))
     \<lparr>title = ''T'', description = ''D'', link = ''L'', published = ''P''\<rparr>
   = Inr (STYLE_PREFIX @ '' A lone microphone.'')"
    using generate_image_prompt_style
      [of "\<lambda>p. Inr (Some ''  A lone microphone.\<newline>'')"
        "\<lparr>title = ''T'', description = ''D'', link = ''L'', published = ''P''\<rparr>"
        "''  A lone microphone.\<newline>''"]
    by (simp add: py_strip_def py_isspace_def py_startswith_def py_lower_def py_lower_char_def
          upper_chars_def lower_chars_def)
  have b: "generate_image_prompt (\<lambda>p. Inr (Some (CHR 0xA0 # ''Vintage poster'')))
     \<lparr>title = ''T'', description = ''D'', link = ''L'', published = ''P''\<rparr>
   = Inr ''Vintage poster''"
    using generate_image_prompt_style
      [of "\<lambda>p. Inr (Some (CHR 0xA0 # ''Vintage poster''))"
        "\<lparr>title = ''T'', description = ''D'', link = ''L'', published = ''P''\<rparr>"
        "CHR 0xA0 # ''Vintage poster''"]
    by (simp add: strip_nbsp_vintage lower_vintage_poster)
  from a b show ?thesis by blast
qed

subsection \<open>The selector\<close>

lemma collect_Inr: "collect rs = Inr vs \<Longrightarrow> rs = map Inr vs"
  by (induction rs arbitrary: vs) (auto split: sum.splits)

lemma collect_length: "collect rs = Inr vs \<Longrightarrow> length vs = length rs"
  by (drule collect_Inr) simp

lemma strip_short_array: "py_strip ''[1, 2]'' = ''[1, 2]''"
  by (simp add: py_strip_def py_isspace_def)

lemma search_short_array: "re_search_array ''[1, 2]'' = Some ''[1, 2]''"
  by (simp add: re_class_def is_digit_def py_isspace_def py_startswith_def)

lemma search_stripped_short_array: "re_search_array (py_strip ''[1, 2]'') = Some ''[1, 2]''"
  by (simp only: strip_short_array search_short_array)

lemma loads_short_array: "json_loads ''[1, 2]'' = Inr [1, 2]"
  by (simp add: json_loads_def json_ws_def json_element_def is_digit_def json_number_def
      nat_of_digits_def digit_val_def INT_MAX_STR_DIGITS_def)

lemma numbered_feed_7:
  "numbered_feed 7 ! 0 = \<lparr>title = ''1'', description = [], link = [], published = []\<rparr>"
  "numbered_feed 7 ! Suc 0 = \<lparr>title = ''2'', description = [], link = [], published = []\<rparr>"
  "length (numbered_feed 7) = 7"
  "take 2 (numbered_feed 7) =
     [\<lparr>title = ''1'', description = [], link = [], published = []\<rparr>,
      \<lparr>title = ''2'', description = [], link = [], published = []\<rparr>]"
  by (simp_all add: numbered_feed_def upt_rec digit_char_def)

lemma select_short_array:
  "select_stories (answering ''[1, 2]'') (numbered_feed 7) = Inr (take 2 (numbered_feed 7))"
  unfolding select_stories_def answering_def response_text_strip_def
  by (simp only: search_stripped_short_array loads_short_array sum.case option.case)
     (simp add: NUM_PANELS_def py_getitem_def numbered_feed_7)

lemma take_2_not_take_6: "take 2 (numbered_feed 7) \<noteq> take NUM_PANELS (numbered_feed 7)"
proof -
  have "length (take 2 (numbered_feed 7)) \<noteq> length (take NUM_PANELS (numbered_feed 7))"
    by (simp add: NUM_PANELS_def numbered_feed_7)
  then show ?thesis by metis
qed

text \<open>
  A bracketed run with a no-break space in it is matched by the pattern but is not JSON, and
  a number of more than 4300 digits is refused: in both cases the selector raises, it does
  not fall back.
\<close>

lemma search_nbsp_array:
  "re_search_array (py_strip (''[1,'' @ [CHR 0xA0] @ ''2]'')) = Some (''[1,'' @ [CHR 0xA0] @ ''2]'')"
  by (simp add: py_strip_def re_class_def is_digit_def py_isspace_def py_startswith_def)

lemma loads_nbsp_array: "json_loads (''[1,'' @ [CHR 0xA0] @ ''2]'') = Inl JSONDecodeError"
  by (simp add: json_loads_def json_ws_def json_element_def is_digit_def json_number_def
      nat_of_digits_def digit_val_def INT_MAX_STR_DIGITS_def)

lemma select_nbsp_array_raises:
  "select_stories (answering (''[1,'' @ [CHR 0xA0] @ ''2]'')) (numbered_feed 7) = Inl JSONDecodeError"
  unfolding select_stories_def answering_def response_text_strip_def
  by (simp only: search_nbsp_array loads_nbsp_array sum.case option.case)

lemma json_element_long_number:
  assumes "list_all is_digit ds" "hd ds \<noteq> CHR ''0''" "length ds > INT_MAX_STR_DIGITS"
  shows "json_element ds = Inl (int_too_long (length ds))"
proof -
  from assms(3) have ne: "ds \<noteq> []" by auto
  then obtain d ds' where ds: "ds = d # ds'" by (cases ds) auto
  with assms(1) have "is_digit d" by simp
  then have "\<not> json_ws d" by (auto simp: is_digit_def json_ws_def)
  then have t: "dropWhile json_ws ds = ds" by (simp add: ds)
  from assms(1) have tw: "takeWhile is_digit ds = ds" and dw: "dropWhile is_digit ds = []"
    by (simp_all add: takeWhile_eq_all_conv list_all_iff)
  show ?thesis
    unfolding json_element_def Let_def t tw dw
    using assms(2,3) ne by (simp add: json_number_def)
qed

lemma json_loads_long_number:
  "json_loads (''['' @ replicate 4301 CHR ''7'' @ '']'') = Inl (int_too_long 4301)"
proof -
  have e: "json_element (replicate 4301 CHR ''7'') = Inl (int_too_long 4301)"
    using json_element_long_number [of "replicate 4301 CHR ''7''"]
    by (simp add: list_all_iff is_digit_def INT_MAX_STR_DIGITS_def)
  have s: "split_commas (replicate n CHR ''7'') = [replicate n CHR ''7'']" for n
    by (induction n) simp_all
  have b: "butlast (replicate 4301 CHR ''7'' @ '']'') = replicate 4301 CHR ''7''"
    by (simp add: butlast_append)
  have w: "\<not> list_all json_ws (replicate 4301 CHR ''7'')"
    by (simp add: list_all_iff json_ws_def)
  show ?thesis
    by (simp add: json_loads_def Let_def b w s e)
qed

text \<open>
  C4, as the code has it. When the trimmed response holds no bracketed run of digits,
  commas and whitespace, the selector returns the first \<open>NUM_PANELS\<close> stories of the feed in
  feed order. When it holds one and the selector returns, the result is the stories at the
  first \<open>NUM_PANELS\<close> parsed indices, so its length is the smaller of \<open>NUM_PANELS\<close> and the
  number of indices parsed: there is no fallback on a short array.
\<close>

theorem select_stories_fallback_and_length:
  assumes "client (selection_prompt feed_stories) = Inr (Some txt)"
  shows "(re_search_array (py_strip txt) = None \<longrightarrow>
            select_stories client feed_stories = Inr (take NUM_PANELS feed_stories))
       \<and> (\<forall>m sel. re_search_array (py_strip txt) = Some m
                  \<and> select_stories client feed_stories = Inr sel \<longrightarrow>
            (\<exists>indices. json_loads m = Inr indices
                \<and> length sel = min NUM_PANELS (length indices)
                \<and> map Inr sel =
                    map (\<lambda>i. py_getitem feed_stories (int i - 1)) (take NUM_PANELS indices)))"
proof (intro conjI allI impI)
  assume "re_search_array (py_strip txt) = None"
  with assms show "select_stories client feed_stories = Inr (take NUM_PANELS feed_stories)"
    by (simp add: select_stories_def response_text_strip_def)
next
  fix m sel
  assume h: "re_search_array (py_strip txt) = Some m \<and> select_stories client feed_stories = Inr sel"
  with assms obtain indices where
    ix: "json_loads m = Inr indices" and
    co: "collect (map (\<lambda>i. py_getitem feed_stories (int i - 1)) (take NUM_PANELS indices)) = Inr sel"
    by (auto simp: select_stories_def response_text_strip_def split: sum.splits)
  from collect_length [OF co] have "length sel = min NUM_PANELS (length indices)"
    by (simp add: min.commute)
  moreover from collect_Inr [OF co]
  have "map Inr sel = map (\<lambda>i. py_getitem feed_stories (int i - 1)) (take NUM_PANELS indices)"
    by simp
  ultimately show "\<exists>indices. json_loads m = Inr indices
      \<and> length sel = min NUM_PANELS (length indices)
      \<and> map Inr sel = map (\<lambda>i. py_getitem feed_stories (int i - 1)) (take NUM_PANELS indices)"
    using ix by blast
qed

theorem select_stories_fallback_and_length_witness:
  "select_stories (answering ''none'') (numbered_feed 7) = Inr (take NUM_PANELS (numbered_feed 7))
   \<and> (\<exists>indices. json_loads ''[1, 2]'' = Inr indices
         \<and> length (take 2 (numbered_feed 7)) = min NUM_PANELS (length indices))"
proof -
  have c: "answering t (selection_prompt f) = Inr (Some t)" for t f
    by (simp add: answering_def)
  have n: "re_search_array (py_strip ''none'') = None"
    by (simp add: py_strip_def py_isspace_def)
  from select_stories_fallback_and_length
         [of "answering ''none''" "numbered_feed 7" "''none''", OF c] n
  have A: "select_stories (answering ''none'') (numbered_feed 7) = Inr (take NUM_PANELS (numbered_feed 7))"
    by blast
  from select_stories_fallback_and_length
         [of "answering ''[1, 2]''" "numbered_feed 7" "''[1, 2]''", OF c]
    search_stripped_short_array select_short_array
  have B: "\<exists>indices. json_loads ''[1, 2]'' = Inr indices
         \<and> length (take 2 (numbered_feed 7)) = min NUM_PANELS (length indices)"
    by blast
  from A B show ?thesis by blast
qed

theorem select_stories_short_array_counterexample:
  "re_search_array (py_strip ''[1, 2]'') = Some ''[1, 2]''
   \<and> json_loads ''[1, 2]'' = Inr [1, 2]
   \<and> select_stories (answering ''[1, 2]'') (numbered_feed 7) = Inr (take 2 (numbered_feed 7))
   \<and> select_stories (answering ''[1, 2]'') (numbered_feed 7) \<noteq> Inr (take NUM_PANELS (numbered_feed 7))
   \<and> length (take 2 (numbered_feed 7)) \<noteq> NUM_PANELS"
  using search_stripped_short_array loads_short_array select_short_array take_2_not_take_6
  by (simp add: NUM_PANELS_def numbered_feed_7)

subsection \<open>The panel generator\<close>

lemma attempts_list: "[1 ..< MAX_RETRIES + 1] = [1, 2, 3]"
  by (simp add: MAX_RETRIES_def upt_rec)

lemma attempt_body_not_Normal: "attempt_body c r p n a \<noteq> Normal"
  by (auto simp: attempt_body_def split: sum.splits option.splits list.splits ctl.splits)

lemma try_attempt_cases:
  "try_attempt c r p n a w =
     (case attempt_body c r p n a of
        Return im \<Rightarrow> (Return im, w\<lparr>log := log w @ [Request n a]\<rparr>)
      | _ \<Rightarrow> (Normal, on_exception a (w\<lparr>log := log w @ [Request n a]\<rparr>)))"
  using attempt_body_not_Normal [of c r p n a]
  by (auto simp: try_attempt_def Let_def split: ctl.splits)

lemma try_attempt_not_Raise: "fst (try_attempt c r p n a w) \<noteq> Raise e"
  by (simp add: try_attempt_cases split: ctl.splits)

lemma attempts_not_Raise: "fst (attempts c r p n as w) \<noteq> Raise e"
proof (induction as arbitrary: w)
  case Nil show ?case by simp
next
  case (Cons a as)
  show ?case
  proof (cases "try_attempt c r p n a w")
    case (Pair x w')
    with Cons try_attempt_not_Raise [of c r p n a w] show ?thesis
      by (cases x) auto
  qed
qed

lemma attempts_all_fail:
  "(\<forall>a \<in> set as. \<forall>im. attempt_body c r p n a \<noteq> Return im) \<Longrightarrow> fst (attempts c r p n as w) = Normal"
proof (induction as arbitrary: w)
  case Nil show ?case by simp
next
  case (Cons a as)
  then have "\<forall>im. attempt_body c r p n a \<noteq> Return im" by simp
  then have "fst (try_attempt c r p n a w) = Normal"
    by (auto simp: try_attempt_cases split: ctl.splits)
  with Cons show ?case
    by (cases "try_attempt c r p n a w") auto
qed

lemma scan_parts_first_inline:
  "scan_parts r ps =
     (case first_inline ps of
        None \<Rightarrow> Normal
      | Some b \<Rightarrow> if r (data b) then Return (Opened (data b)) else Raise UnidentifiedImageError)"
  by (induction ps) (auto simp: first_inline_def Image_open_def split: option.splits)

lemma attempt_body_first_candidate:
  assumes "client prompt panel_num attempt = Inr resp"
  shows "attempt_body client recognised prompt panel_num attempt =
     (case first_candidate_image resp of
        Some b \<Rightarrow> if recognised (data b) then Return (Opened (data b)) else Raise UnidentifiedImageError
      | None \<Rightarrow>
          (case candidates resp of
             Some (c # cs) \<Rightarrow>
               (case content c of
                  None \<Rightarrow> Raise AttributeError
                | Some ct \<Rightarrow> (case parts ct of None \<Rightarrow> Raise TypeError
                              | Some ps \<Rightarrow> Raise (ValueError ''No image data in response'')))
           | _ \<Rightarrow> Raise (ValueError ''No candidates in response'')))"
  using assms
  by (auto simp: attempt_body_def first_candidate_image_def scan_parts_first_inline
           split: option.splits list.splits)

lemma attempt_body_failing: "attempt_body failing r p n a = Raise (ServiceError ''unavailable'')"
  by (simp add: attempt_body_def failing_def)

lemma first_candidate_two_images:
  "first_candidate_image two_images_response = Some \<lparr>mime_type = ''image/png'', data = [137, 80]\<rparr>"
  by (simp add: first_candidate_image_def two_images_response_def response_of_def candidate_of_def
      first_inline_def text_part_def image_part_def)

lemma attempt_succeeds_failing_once:
  "\<not> attempt_succeeds (failing_once two_images_response) any_bytes ''a microphone'' 4 (Suc 0)"
  "attempt_succeeds (failing_once two_images_response) any_bytes ''a microphone'' 4 2"
  by (simp_all add: attempt_succeeds_def attempt_body_def failing_once_def two_images_response_def
       response_of_def candidate_of_def text_part_def image_part_def Image_open_def any_bytes_def)

text \<open>
  C3. A call makes at most \<open>MAX_RETRIES\<close> = 3 requests. It stops at the first attempt that
  returns an image and returns that image. After a failed first attempt it sleeps
  \<open>RETRY_BASE_DELAY * 2 ^ (1 - 1)\<close> = 2 seconds, after a failed second attempt
  \<open>RETRY_BASE_DELAY * 2 ^ (2 - 1)\<close> = 4 seconds, and after the third attempt it does not sleep.
\<close>

theorem generate_panel_image_backoff:
  "log (snd (generate_panel_image client recognised prompt panel_num w)) =
     log w @
     (if attempt_succeeds client recognised prompt panel_num 1 then [Request panel_num 1]
      else if attempt_succeeds client recognised prompt panel_num 2
      then [Request panel_num 1, Sleep (RETRY_BASE_DELAY * 2 ^ (1 - 1)), Request panel_num 2]
      else [Request panel_num 1, Sleep (RETRY_BASE_DELAY * 2 ^ (1 - 1)), Request panel_num 2,
            Sleep (RETRY_BASE_DELAY * 2 ^ (2 - 1)), Request panel_num 3])
   \<and> fst (generate_panel_image client recognised prompt panel_num w) =
     (case attempt_body client recognised prompt panel_num 1 of
        Return im \<Rightarrow> Inr (Some im)
      | _ \<Rightarrow> (case attempt_body client recognised prompt panel_num 2 of
                Return im \<Rightarrow> Inr (Some im)
              | _ \<Rightarrow> (case attempt_body client recognised prompt panel_num 3 of
                        Return im \<Rightarrow> Inr (Some im)
                      | _ \<Rightarrow> Inr None)))
   \<and> RETRY_BASE_DELAY * 2 ^ (1 - 1) = 2 \<and> RETRY_BASE_DELAY * 2 ^ (2 - 1) = 4"
  unfolding generate_panel_image_def attempts_list
  by (simp add: try_attempt_cases attempt_succeeds_def on_exception_def MAX_RETRIES_def
        RETRY_BASE_DELAY_def split: ctl.splits)

theorem generate_panel_image_backoff_witness:
  "log (snd (generate_panel_image (failing_once two_images_response) any_bytes ''a microphone'' 4
               empty_world))
   = [Request 4 1, Sleep 2, Request 4 2]"
  using conjunct1 [OF generate_panel_image_backoff
          [of "failing_once two_images_response" any_bytes "''a microphone''" 4 empty_world]]
  by (simp add: attempt_succeeds_failing_once empty_world_def RETRY_BASE_DELAY_def)

text \<open>
  C5. Whatever the service and the decoder do, the panel generator returns an image or the
  absent marker \<open>None\<close>; no exception leaves it. When no attempt returns an image the
  result is \<open>None\<close>.
\<close>

theorem generate_panel_image_never_raises:
  "(fst (generate_panel_image client recognised prompt panel_num w) = Inr None
      \<or> (\<exists>im. fst (generate_panel_image client recognised prompt panel_num w) = Inr (Some im)))
   \<and> ((\<forall>attempt \<in> set [1 ..< MAX_RETRIES + 1].
          \<forall>im. attempt_body client recognised prompt panel_num attempt \<noteq> Return im)
        \<longrightarrow> fst (generate_panel_image client recognised prompt panel_num w) = Inr None)"
proof (intro conjI impI)
  obtain x w' where a: "attempts client recognised prompt panel_num [1 ..< MAX_RETRIES + 1] w = (x, w')"
    by (cases "attempts client recognised prompt panel_num [1 ..< MAX_RETRIES + 1] w")
  with attempts_not_Raise [of client recognised prompt panel_num "[1 ..< MAX_RETRIES + 1]" w]
  have "\<forall>e. x \<noteq> Raise e" by simp
  with a show "fst (generate_panel_image client recognised prompt panel_num w) = Inr None
      \<or> (\<exists>im. fst (generate_panel_image client recognised prompt panel_num w) = Inr (Some im))"
    by (cases x) (simp_all add: generate_panel_image_def)
next
  assume "\<forall>attempt \<in> set [1 ..< MAX_RETRIES + 1].
          \<forall>im. attempt_body client recognised prompt panel_num attempt \<noteq> Return im"
  from attempts_all_fail [OF this, of w]
  show "fst (generate_panel_image client recognised prompt panel_num w) = Inr None"
    by (cases "attempts client recognised prompt panel_num [1 ..< MAX_RETRIES + 1] w")
       (simp add: generate_panel_image_def)
qed

theorem generate_panel_image_never_raises_witness:
  "fst (generate_panel_image failing any_bytes ''a microphone'' 1 empty_world) = Inr None"
  using generate_panel_image_never_raises [of failing any_bytes "''a microphone''" 1 empty_world]
  by (simp add: attempt_body_failing)

text \<open>
  C9, as the code has it. An attempt whose request is answered returns an image exactly
  when the first candidate of the response has parts, one of them carries inline data, and
  the decoder recognises the data of the first such part; the image returned is that data
  decoded. Later parts and later candidates are not looked at.
\<close>

theorem attempt_succeeds_iff_first_candidate:
  assumes "client prompt panel_num attempt = Inr resp"
  shows "(attempt_body client recognised prompt panel_num attempt = Return im)
         = (\<exists>b. first_candidate_image resp = Some b \<and> recognised (data b) \<and> im = Opened (data b))"
  using attempt_body_first_candidate [of client prompt panel_num attempt resp recognised] assms
  by (auto split: option.splits list.splits)

theorem attempt_succeeds_iff_first_candidate_witness:
  "serving two_images_response ''a microphone'' 1 1 = Inr two_images_response
   \<and> attempt_body (serving two_images_response) any_bytes ''a microphone'' 1 1 = Return (Opened [137, 80])"
proof -
  have h: "serving two_images_response ''a microphone'' 1 1 = Inr two_images_response"
    by (simp add: serving_def)
  from attempt_succeeds_iff_first_candidate
         [of "serving two_images_response" "''a microphone''" 1 1 two_images_response any_bytes
             "Opened [137, 80]", OF h]
  show ?thesis using h
    by (simp add: first_candidate_two_images any_bytes_def)
qed

theorem attempt_second_candidate_counterexample:
  "spec_has_image second_candidate_response
   \<and> attempt_body (serving second_candidate_response) any_bytes ''a microphone'' 1 1
       = Raise (ValueError ''No image data in response'')"
  by (simp add: spec_has_image_def second_candidate_response_def response_of_def candidate_of_def
      text_part_def image_part_def attempt_body_def serving_def)

subsection \<open>The compositor\<close>

lemma place_panels_frame:
  "width (place_panels ips c) = width c \<and> height (place_panels ips c) = height c
   \<and> background (place_panels ips c) = background c"
  by (induction ips c rule: place_panels.induct) (auto simp: draw_def Let_def split: option.splits)

text \<open>
  C6. The canvas is \<open>MARGIN * 2 + COLS * PANEL_WIDTH + (COLS - 1) * GUTTER\<close> = 1284 wide and
  \<open>MARGIN * 2 + HEADER_HEIGHT + ROWS * PANEL_HEIGHT + (ROWS - 1) * GUTTER\<close> = 1372 high,
  whatever the panels, the date string and the fonts: two calls always agree on the size.
\<close>

theorem compose_comic_strip_dimensions:
  "width (compose_comic_strip fl panels date_str) = MARGIN * 2 + COLS * PANEL_WIDTH + (COLS - 1) * GUTTER
   \<and> height (compose_comic_strip fl panels date_str)
       = MARGIN * 2 + HEADER_HEIGHT + ROWS * PANEL_HEIGHT + (ROWS - 1) * GUTTER
   \<and> width (compose_comic_strip fl panels date_str) = 1284
   \<and> height (compose_comic_strip fl panels date_str) = 1372
   \<and> width (compose_comic_strip fl panels date_str) = width (compose_comic_strip fl' panels' date_str')
   \<and> height (compose_comic_strip fl panels date_str) = height (compose_comic_strip fl' panels' date_str')"
  by (simp add: compose_comic_strip_def Let_def place_panels_frame draw_def split_def
        MARGIN_def COLS_def ROWS_def PANEL_WIDTH_def PANEL_HEIGHT_def GUTTER_def HEADER_HEIGHT_def)

theorem compose_comic_strip_dimensions_witness:
  "width (compose_comic_strip all_fonts five_of_six ''January 16, 2026'') = 1284
   \<and> height (compose_comic_strip all_fonts five_of_six ''January 16, 2026'') = 1372
   \<and> width (compose_comic_strip all_fonts five_of_six ''January 16, 2026'')
       = width (compose_comic_strip all_fonts [] [])"
  using compose_comic_strip_dimensions
          [of all_fonts five_of_six "''January 16, 2026''" all_fonts "[]" "[]"]
  by blast

lemma spec_border_inj: "spec_border i = spec_border j \<Longrightarrow> i = j"
proof -
  assume a: "spec_border i = spec_border j"
  then have m: "int i mod 3 = int j mod 3" and d: "int i div 3 = int j div 3"
    by (simp_all add: spec_border_def spec_cell_origin_def MARGIN_def COLS_def PANEL_WIDTH_def
          PANEL_HEIGHT_def GUTTER_def HEADER_HEIGHT_def BORDER_def)
  have "int i = 3 * (int i div 3) + int i mod 3" by simp
  also have "\<dots> = 3 * (int j div 3) + int j mod 3" using m d by simp
  also have "\<dots> = int j" by simp
  finally show "i = j" by simp
qed

lemma drawn_place_panels:
  "set (drawn (place_panels ips c)) =
     set (drawn c) \<union> (\<Union>(i, slot) \<in> set ips. case slot of None \<Rightarrow> {}
         | Some im \<Rightarrow> {spec_border i, Paste (Resized im (PANEL_WIDTH, PANEL_HEIGHT)) (spec_cell_origin i)})"
  by (induction ips c rule: place_panels.induct)
     (auto simp: draw_def Let_def spec_border_def spec_cell_origin_def split: option.splits)

lemma spec_border_not_paste: "spec_border i \<noteq> Paste im xy" "spec_border i \<noteq> Draw_text xy s f c"
  by (simp_all add: spec_border_def split_def)

lemma border_drawn_iff:
  assumes "i < length panels"
  shows "(spec_border i \<in> set (drawn (compose_comic_strip fl panels date_str))) = (panels ! i \<noteq> None)"
proof
  assume "spec_border i \<in> set (drawn (compose_comic_strip fl panels date_str))"
  then obtain j im where j: "(j, Some im) \<in> set (enumerate 0 panels)" and "spec_border i = spec_border j"
    by (auto simp: compose_comic_strip_def Let_def drawn_place_panels draw_def spec_border_not_paste
          split: option.splits if_splits)
  then have "i = j" by (simp add: spec_border_inj)
  with j show "panels ! i \<noteq> None" by (auto simp: in_set_enumerate_eq)
next
  assume "panels ! i \<noteq> None"
  then obtain im where "panels ! i = Some im" by auto
  with assms have "(i, Some im) \<in> set (enumerate 0 panels)" by (auto simp: in_set_enumerate_eq)
  then show "spec_border i \<in> set (drawn (compose_comic_strip fl panels date_str))"
    by (force simp: compose_comic_strip_def Let_def drawn_place_panels split_def)
qed

lemma paste_drawn:
  assumes "i < length panels" "panels ! i = Some im"
  shows "Paste (Resized im (PANEL_WIDTH, PANEL_HEIGHT)) (spec_cell_origin i)
           \<in> set (drawn (compose_comic_strip fl panels date_str))"
proof -
  from assms have "(i, Some im) \<in> set (enumerate 0 panels)" by (auto simp: in_set_enumerate_eq)
  then show ?thesis
    by (force simp: compose_comic_strip_def Let_def drawn_place_panels split_def)
qed

text \<open>
  C1, as the code has it. For a slot \<open>i\<close> of the input, the border rectangle around the cell
  at column \<open>i mod COLS\<close> and row \<open>i div COLS\<close> is drawn exactly when the slot holds an image,
  and then the image, resized to the cell, is pasted at the cell origin. An absent slot is
  skipped: nothing is drawn for it.
\<close>

theorem border_drawn_for_present_slots:
  assumes "i < length panels"
  shows "(spec_border i \<in> set (drawn (compose_comic_strip fl panels date_str))) = (panels ! i \<noteq> None)
       \<and> (\<forall>im. panels ! i = Some im \<longrightarrow>
             Paste (Resized im (PANEL_WIDTH, PANEL_HEIGHT)) (spec_cell_origin i)
               \<in> set (drawn (compose_comic_strip fl panels date_str)))
       \<and> spec_cell_origin i = (30 + (int i mod 3) * 412, 130 + (int i div 3) * 612)"
  using border_drawn_iff [OF assms] paste_drawn [OF assms]
  by (simp add: spec_cell_origin_def MARGIN_def COLS_def PANEL_WIDTH_def
          PANEL_HEIGHT_def GUTTER_def HEADER_HEIGHT_def)

theorem border_drawn_for_present_slots_witness:
  "4 < length five_of_six
   \<and> spec_border 4 \<in> set (drawn (compose_comic_strip all_fonts five_of_six ''January 16, 2026''))
   \<and> Paste (Resized (Opened [5]) (PANEL_WIDTH, PANEL_HEIGHT)) (spec_cell_origin 4)
       \<in> set (drawn (compose_comic_strip all_fonts five_of_six ''January 16, 2026''))"
proof -
  have l: "4 < length five_of_six" and p: "five_of_six ! 4 = Some (Opened [5])"
    by (simp_all add: five_of_six_def)
  from border_drawn_for_present_slots [OF l, of all_fonts "''January 16, 2026''"] l p
  show ?thesis by auto
qed

theorem absent_slot_border_counterexample:
  "five_of_six ! 3 = None
   \<and> spec_border 3 \<notin> set (drawn (compose_comic_strip all_fonts five_of_six ''January 16, 2026''))
   \<and> spec_border 2 \<in> set (drawn (compose_comic_strip all_fonts five_of_six ''January 16, 2026''))"
  using border_drawn_iff [of 3 five_of_six all_fonts "''January 16, 2026''"]
        border_drawn_iff [of 2 five_of_six all_fonts "''January 16, 2026''"]
  by (simp add: five_of_six_def)

subsection \<open>The archive\<close>

lemma entries_for_absent: "(entries_for d w = 0) = (d \<notin> set (map comic_date (case archive_json w of Some comics \<Rightarrow> comics | None \<Rightarrow> [])))"
  by (auto simp: entries_for_def filter_empty_conv)

lemma update_archive_new:
  "entries_for d w = 0 \<Longrightarrow>
     update_archive d w =
       w\<lparr>archive_json := Some (\<lparr>comic_date = d, comic_image = d @ ''.jpg''\<rparr>
                                # (case archive_json w of Some comics \<Rightarrow> comics | None \<Rightarrow> []))\<rparr>"
  by (simp add: update_archive_def Let_def entries_for_absent)

lemma update_archive_old: "entries_for d w \<noteq> 0 \<Longrightarrow> update_archive d w = w"
  by (simp add: update_archive_def Let_def entries_for_absent)

lemma entries_for_update_archive:
  "entries_for d (update_archive d w) = (if entries_for d w = 0 then 1 else entries_for d w)"
proof (cases "entries_for d w = 0")
  case True
  then show ?thesis
    by (simp add: update_archive_new) (simp add: entries_for_def)
next
  case False
  then show ?thesis by (simp add: update_archive_old)
qed

lemma update_archive_idem: "update_archive d (update_archive d w) = update_archive d w"
proof -
  have "entries_for d (update_archive d w) \<noteq> 0"
    by (simp add: entries_for_update_archive)
  then show ?thesis by (rule update_archive_old)
qed

text \<open>
  C7, as the code has it. \<open>update_archive\<close> adds an entry only when no entry carries the
  date, and it never removes one. So after two updates with the same date the archive holds
  one entry for the date when it held none or one before, and as many as before when it
  already held several. A date that was not in the archive is inserted at the front, and
  the second update changes nothing.
\<close>

theorem update_archive_twice:
  "(entries_for d w \<le> 1 \<longrightarrow> entries_for d (update_archive d (update_archive d w)) = 1)
   \<and> entries_for d (update_archive d (update_archive d w))
       = (if entries_for d w = 0 then 1 else entries_for d w)
   \<and> (entries_for d w = 0 \<longrightarrow>
        archive_json (update_archive d w)
          = Some (\<lparr>comic_date = d, comic_image = d @ ''.jpg''\<rparr>
                   # (case archive_json w of Some comics \<Rightarrow> comics | None \<Rightarrow> [])))
   \<and> update_archive d (update_archive d w) = update_archive d w"
  by (auto simp: update_archive_idem entries_for_update_archive update_archive_new)

theorem update_archive_twice_witness:
  "entries_for ''2026-01-16'' empty_world \<le> 1
   \<and> entries_for ''2026-01-16'' (update_archive ''2026-01-16'' (update_archive ''2026-01-16'' empty_world)) = 1
   \<and> archive_json (update_archive ''2026-01-16'' empty_world)
       = Some [\<lparr>comic_date = ''2026-01-16'', comic_image = ''2026-01-16.jpg''\<rparr>]"
proof -
  have z: "entries_for ''2026-01-16'' empty_world = 0"
    by (simp add: entries_for_def empty_world_def)
  have a: "archive_json empty_world = None"
    by (simp add: empty_world_def)
  have le: "entries_for ''2026-01-16'' empty_world \<le> 1"
    using z by simp
  note t = update_archive_twice [of "''2026-01-16''" empty_world]
  from t le
  have A: "entries_for ''2026-01-16''
             (update_archive ''2026-01-16'' (update_archive ''2026-01-16'' empty_world)) = 1"
    by blast
  from t z
  have "archive_json (update_archive ''2026-01-16'' empty_world)
          = Some (\<lparr>comic_date = ''2026-01-16'', comic_image = ''2026-01-16'' @ ''.jpg''\<rparr>
                   # (case archive_json empty_world of Some comics \<Rightarrow> comics | None \<Rightarrow> []))"
    by blast
  then have B: "archive_json (update_archive ''2026-01-16'' empty_world)
       = Some [\<lparr>comic_date = ''2026-01-16'', comic_image = ''2026-01-16.jpg''\<rparr>]"
    by (simp add: a)
  from le A B show ?thesis by blast
qed

theorem update_archive_duplicates_counterexample:
  "entries_for ''2026-01-16''
     (update_archive ''2026-01-16'' (update_archive ''2026-01-16'' duplicated_archive)) = 2"
  by (simp add: update_archive_def entries_for_def duplicated_archive_def empty_world_def)

subsection \<open>The run\<close>

lemma read_put_file:
  "read_file (put_file n v fs) m = (if m = n then Some v else read_file fs m)"
  by (induction fs) (auto simp: read_file_def put_file_def)

lemma try_attempt_published:
  "published_files (snd (try_attempt c r p n a w)) = published_files w"
  by (simp add: try_attempt_cases on_exception_def published_files_def Let_def split: ctl.splits)

lemma attempts_published:
  "published_files (snd (attempts c r p n as w)) = published_files w
   \<and> temp_dir (snd (attempts c r p n as w)) = temp_dir w"
proof (induction as arbitrary: w)
  case Nil show ?case by simp
next
  case (Cons a as)
  obtain x w' where t: "try_attempt c r p n a w = (x, w')"
    by (cases "try_attempt c r p n a w")
  have "published_files w' = published_files w"
    using try_attempt_published [of c r p n a w] t by simp
  moreover have "temp_dir w' = temp_dir w"
    using t by (auto simp: try_attempt_cases on_exception_def Let_def split: ctl.splits if_splits)
  ultimately show ?case
    using Cons [of w'] t by (cases x) simp_all
qed

lemma generate_panel_image_total:
  "\<exists>slot w'. generate_panel_image c r p n w = (Inr slot, w')
      \<and> published_files w' = published_files w \<and> temp_dir w' = temp_dir w"
proof -
  obtain x w' where a: "attempts c r p n [1 ..< MAX_RETRIES + 1] w = (x, w')"
    by (cases "attempts c r p n [1 ..< MAX_RETRIES + 1] w")
  with attempts_not_Raise [of c r p n "[1 ..< MAX_RETRIES + 1]" w]
  have nr: "\<forall>e. x \<noteq> Raise e" by simp
  from attempts_published [of c r p n "[1 ..< MAX_RETRIES + 1]" w] a
  have "published_files w' = published_files w \<and> temp_dir w' = temp_dir w" by simp
  with a nr show ?thesis
    by (cases x) (simp_all add: generate_panel_image_def)
qed

lemma generate_panels_total:
  "\<exists>panels w'. generate_panels c r ips w = (Inr panels, w')
      \<and> length panels = length ips \<and> published_files w' = published_files w"
proof (induction ips arbitrary: w)
  case Nil show ?case by simp
next
  case (Cons ip ips)
  obtain i p where ip: "ip = (i, p)" by (cases ip)
  from generate_panel_image_total [of c r p "i + 1" w]
  obtain slot w1 where g: "generate_panel_image c r p (i + 1) w = (Inr slot, w1)"
    and p1: "published_files w1 = published_files w" by blast
  define w2 where "w2 = (case slot of
       Some im \<Rightarrow> w1\<lparr>temp_dir := put_file (''panel_'' @ py_str_nat (i + 1) @ ''.png'') im (temp_dir w1)\<rparr>
     | None \<Rightarrow> w1)"
  have p2: "published_files w2 = published_files w"
    using p1 by (simp add: w2_def published_files_def split: option.splits)
  from Cons [of w2] obtain panels w3 where
    r: "generate_panels c r ips w2 = (Inr panels, w3)" and l: "length panels = length ips"
    and p3: "published_files w3 = published_files w2" by blast
  from g r have "generate_panels c r (ip # ips) w = (Inr (slot # panels), w3)"
    by (simp add: ip w2_def Let_def del: One_nat_def)
  with l p2 p3 show ?case by simp
qed

lemma copy_jpg_frame:
  "fullres_dir (copy_jpg src dst w) = fullres_dir w \<and> web_jsons (copy_jpg src dst w) = web_jsons w
   \<and> archive_json (copy_jpg src dst w) = archive_json w
   \<and> (n \<noteq> dst \<longrightarrow> read_file (web_jpgs (copy_jpg src dst w)) n = read_file (web_jpgs w) n)"
  by (simp add: copy_jpg_def read_put_file split: option.splits)

lemma update_latest_images_frame:
  "fullres_dir (update_latest_images w) = fullres_dir w
   \<and> web_jsons (update_latest_images w) = web_jsons w
   \<and> archive_json (update_latest_images w) = archive_json w
   \<and> (n \<noteq> ''latest-1.jpg'' \<and> n \<noteq> ''latest-2.jpg'' \<longrightarrow>
        read_file (web_jpgs (update_latest_images w)) n = read_file (web_jpgs w) n)"
  by (simp add: update_latest_images_def Let_def copy_jpg_frame)

lemma update_archive_frame:
  "fullres_dir (update_archive d w) = fullres_dir w \<and> web_jsons (update_archive d w) = web_jsons w
   \<and> web_jpgs (update_archive d w) = web_jpgs w"
  by (simp add: update_archive_def Let_def)

lemma iso_date_jpg: "iso_date d \<Longrightarrow> d @ ''.jpg'' \<noteq> ''latest-1.jpg'' \<and> d @ ''.jpg'' \<noteq> ''latest-2.jpg''"
proof -
  assume "iso_date d"
  then have "length (d @ ''.jpg'') = 14" by (simp add: iso_date_def)
  then show ?thesis by auto
qed

lemma save_metadata_frame:
  "fst (save_metadata st d w) = \<lparr>date = d, image_file = d @ ''.jpg'', stories = map story_entry_of (enumerate 0 st)\<rparr>
   \<and> fullres_dir (snd (save_metadata st d w)) = fullres_dir w
   \<and> web_jpgs (snd (save_metadata st d w)) = web_jpgs w
   \<and> archive_json (snd (save_metadata st d w)) = archive_json w
   \<and> read_file (web_jsons (snd (save_metadata st d w))) (d @ ''.json'') = Some (fst (save_metadata st d w))
   \<and> read_file (web_jsons (snd (save_metadata st d w))) ''latest.json'' = Some (fst (save_metadata st d w))"
  by (simp add: save_metadata_def Let_def read_put_file)

lemma main_unfold:
  assumes "select_stories (text_service sv) (feed sv) = Inr selected"
      and "collect (map (generate_image_prompt (text_service sv)) selected) = Inr prompts"
      and "generate_panels (image_service sv) (recognised_bytes sv) (enumerate 0 prompts) w = (Inr panels, w1)"
  shows "main sv today today_display w =
     (if successful panels < MIN_PANELS_REQUIRED
      then (Inl (RuntimeError (shortfall_message (successful panels))), w1)
      else (Inr (fst (save_metadata selected today
                  (w1\<lparr>fullres_dir := put_file (today @ ''.png'')
                           (compose_comic_strip (font_loads sv) panels today_display) (fullres_dir w1),
                       web_jpgs := put_file (today @ ''.jpg'')
                           (optimize_for_web (compose_comic_strip (font_loads sv) panels today_display))
                           (web_jpgs w1)\<rparr>))),
            update_archive today (update_latest_images (snd (save_metadata selected today
                  (w1\<lparr>fullres_dir := put_file (today @ ''.png'')
                           (compose_comic_strip (font_loads sv) panels today_display) (fullres_dir w1),
                       web_jpgs := put_file (today @ ''.jpg'')
                           (optimize_for_web (compose_comic_strip (font_loads sv) panels today_display))
                           (web_jpgs w1)\<rparr>))))))"
  using assms by (simp add: main_def Let_def split_def)

lemma entries_for_positive: "1 \<le> entries_for d (update_archive d w)"
  by (simp add: entries_for_update_archive)

text \<open>
  C2. Once the stories are selected and their prompts written, panel generation returns a
  slot for every selected story. If at least \<open>MIN_PANELS_REQUIRED\<close> slots hold an image, the
  run returns the metadata and the dated files are in place: the full-resolution strip
  under \<^verbatim>\<open>{date}.png\<close>, the web strip under \<^verbatim>\<open>{date}.jpg\<close>, the metadata under
  \<^verbatim>\<open>{date}.json\<close> and \<^verbatim>\<open>latest.json\<close>, and the archive has an entry for the date. If fewer
  slots hold an image, the run raises \<^verbatim>\<open>RuntimeError\<close> and none of the published files (strips,
  metadata, latest pointers, archive) has changed; only panel files of the scratch
  directory may have been written.
\<close>

theorem main_gate:
  assumes sel: "select_stories (text_service sv) (feed sv) = Inr selected"
      and pr: "collect (map (generate_image_prompt (text_service sv)) selected) = Inr prompts"
      and d: "iso_date today"
  shows "\<exists>panels w1.
      generate_panels (image_service sv) (recognised_bytes sv) (enumerate 0 prompts) w = (Inr panels, w1)
    \<and> length panels = length selected
    \<and> (MIN_PANELS_REQUIRED \<le> successful panels \<longrightarrow>
         (\<exists>md w'. main sv today today_display w = (Inr md, w')
            \<and> read_file (fullres_dir w') (today @ ''.png'')
                = Some (compose_comic_strip (font_loads sv) panels today_display)
            \<and> read_file (web_jpgs w') (today @ ''.jpg'')
                = Some (optimize_for_web (compose_comic_strip (font_loads sv) panels today_display))
            \<and> read_file (web_jsons w') (today @ ''.json'') = Some md
            \<and> read_file (web_jsons w') ''latest.json'' = Some md
            \<and> 1 \<le> entries_for today w'))
    \<and> (successful panels < MIN_PANELS_REQUIRED \<longrightarrow>
         (\<exists>w'. main sv today today_display w
                  = (Inl (RuntimeError (shortfall_message (successful panels))), w')
            \<and> published_files w' = published_files w))"
proof -
  from generate_panels_total [of "image_service sv" "recognised_bytes sv" "enumerate 0 prompts" w]
  obtain panels w1 where
    gp: "generate_panels (image_service sv) (recognised_bytes sv) (enumerate 0 prompts) w = (Inr panels, w1)"
    and len: "length panels = length (enumerate 0 prompts)"
    and pub: "published_files w1 = published_files w" by blast
  from collect_length [OF pr] len have len': "length panels = length selected" by simp
  note m = main_unfold [OF sel pr gp, of today today_display]
  define strip where "strip = compose_comic_strip (font_loads sv) panels today_display"
  define w3 where "w3 = w1\<lparr>fullres_dir := put_file (today @ ''.png'') strip (fullres_dir w1),
                       web_jpgs := put_file (today @ ''.jpg'') (optimize_for_web strip) (web_jpgs w1)\<rparr>"
  define md where "md = fst (save_metadata selected today w3)"
  define w4 where "w4 = snd (save_metadata selected today w3)"
  define w' where "w' = update_archive today (update_latest_images w4)"
  have ok: "MIN_PANELS_REQUIRED \<le> successful panels \<Longrightarrow> main sv today today_display w = (Inr md, w')"
    using m by (simp add: strip_def w3_def md_def w4_def w'_def)
  have f: "read_file (fullres_dir w') (today @ ''.png'') = Some strip"
    using update_archive_frame [of today "update_latest_images w4"]
          update_latest_images_frame [of w4] save_metadata_frame [of selected today w3]
    by (simp add: w'_def w4_def) (simp add: w3_def read_put_file)
  have j: "read_file (web_jpgs w') (today @ ''.jpg'') = Some (optimize_for_web strip)"
    using update_archive_frame [of today "update_latest_images w4"]
          update_latest_images_frame [of w4 "today @ ''.jpg''"] iso_date_jpg [OF d]
          save_metadata_frame [of selected today w3]
    by (simp add: w'_def w4_def) (simp add: w3_def read_put_file)
  have k: "read_file (web_jsons w') (today @ ''.json'') = Some md
         \<and> read_file (web_jsons w') ''latest.json'' = Some md"
    using update_archive_frame [of today "update_latest_images w4"]
          update_latest_images_frame [of w4] save_metadata_frame [of selected today w3]
    by (simp add: w'_def w4_def md_def)
  have e: "1 \<le> entries_for today w'"
    unfolding w'_def by (rule entries_for_positive)
  have bad: "successful panels < MIN_PANELS_REQUIRED \<Longrightarrow>
      main sv today today_display w = (Inl (RuntimeError (shortfall_message (successful panels))), w1)"
    using m by simp
  from gp len' ok f j k e bad pub show ?thesis
    unfolding strip_def by blast
qed

text \<open>
  C10. When the run returns metadata, it has one entry for each selected story, in
  selection order, with \<open>panel\<close> the 1-based position and the title, description and link of
  that story, whatever the panel slots hold; the same document is under \<^verbatim>\<open>{date}.json\<close> and
  under \<^verbatim>\<open>latest.json\<close>.
\<close>

theorem main_metadata:
  assumes sel: "select_stories (text_service sv) (feed sv) = Inr selected"
      and pr: "collect (map (generate_image_prompt (text_service sv)) selected) = Inr prompts"
      and run: "main sv today today_display w = (Inr md, w')"
  shows "md = \<lparr>date = today, image_file = today @ ''.jpg'',
               stories = map story_entry_of (enumerate 0 selected)\<rparr>
       \<and> length (stories md) = length selected
       \<and> (\<forall>i < length selected.
             stories md ! i = \<lparr>panel = i + 1, entry_title = title (selected ! i),
                                summary = description (selected ! i),
                                source_url = link (selected ! i)\<rparr>)
       \<and> read_file (web_jsons w') (today @ ''.json'') = Some md
       \<and> read_file (web_jsons w') ''latest.json'' = Some md"
proof -
  from generate_panels_total [of "image_service sv" "recognised_bytes sv" "enumerate 0 prompts" w]
  obtain panels w1 where
    gp: "generate_panels (image_service sv) (recognised_bytes sv) (enumerate 0 prompts) w = (Inr panels, w1)"
    by blast
  note m = main_unfold [OF sel pr gp, of today today_display]
  define w3 where "w3 = w1\<lparr>fullres_dir := put_file (today @ ''.png'')
                           (compose_comic_strip (font_loads sv) panels today_display) (fullres_dir w1),
                       web_jpgs := put_file (today @ ''.jpg'')
                           (optimize_for_web (compose_comic_strip (font_loads sv) panels today_display))
                           (web_jpgs w1)\<rparr>"
  from m run have md: "md = fst (save_metadata selected today w3)"
    and w': "w' = update_archive today (update_latest_images (snd (save_metadata selected today w3)))"
    by (auto simp: w3_def split: if_splits)
  note sm = save_metadata_frame [of selected today w3]
  have a: "md = \<lparr>date = today, image_file = today @ ''.jpg'',
               stories = map story_entry_of (enumerate 0 selected)\<rparr>"
    using sm md by simp
  have b: "length (stories md) = length selected"
    by (simp add: a)
  have c: "\<forall>i < length selected.
             stories md ! i = \<lparr>panel = i + 1, entry_title = title (selected ! i),
                                summary = description (selected ! i),
                                source_url = link (selected ! i)\<rparr>"
    by (simp add: a story_entry_of_def nth_enumerate_eq)
  have k: "read_file (web_jsons w') (today @ ''.json'') = Some md
         \<and> read_file (web_jsons w') ''latest.json'' = Some md"
    using update_archive_frame [of today "update_latest_images (snd (save_metadata selected today w3))"]
          update_latest_images_frame [of "snd (save_metadata selected today w3)"] sm
    by (simp add: w' md)
  from a b c k show ?thesis by blast
qed

lemma select_fallback_none:
  "select_stories (answering ''none'') (numbered_feed 7) = Inr (take NUM_PANELS (numbered_feed 7))"
  by (simp add: select_stories_def answering_def response_text_strip_def py_strip_def py_isspace_def)

lemma collect_map_Inr: "collect (map (\<lambda>x. Inr (f x)) xs) = Inr (map f xs)"
  by (induction xs) simp_all

lemma prompts_none:
  "collect (map (generate_image_prompt (answering ''none'')) xs)
     = Inr (map (\<lambda>s. STYLE_PREFIX @ '' none'') xs)"
proof -
  have "generate_image_prompt (answering ''none'') = (\<lambda>s. Inr (STYLE_PREFIX @ '' none''))"
    by (rule ext)
       (simp add: generate_image_prompt_def answering_def response_text_strip_def py_strip_def
          py_isspace_def py_startswith_def py_lower_def py_lower_char_def upper_chars_def lower_chars_def)
  then show ?thesis by (simp add: collect_map_Inr)
qed

lemma attempt_body_failing_for_panel:
  "attempt_body (failing_for_panel k two_images_response) any_bytes p n a =
     (if n = k then Raise (ServiceError ''unavailable'') else Return (Opened [137, 80]))"
  by (simp add: attempt_body_def failing_for_panel_def two_images_response_def response_of_def
        candidate_of_def text_part_def image_part_def Image_open_def any_bytes_def)

lemma generate_panel_image_failing_for_panel:
  "fst (generate_panel_image (failing_for_panel k two_images_response) any_bytes p n w)
     = Inr (if n = k then None else Some (Opened [137, 80]))"
  unfolding generate_panel_image_def attempts_list
  by (simp add: try_attempt_cases attempt_body_failing_for_panel)

lemma generate_panel_image_failing:
  "fst (generate_panel_image failing r p n w) = Inr None"
  unfolding generate_panel_image_def attempts_list
  by (simp add: try_attempt_cases attempt_body_failing)

lemma generate_panels_failing_for_panel:
  "fst (generate_panels (failing_for_panel k two_images_response) any_bytes ips w)
     = Inr (map (\<lambda>ip. if fst ip + 1 = k then None else Some (Opened [137, 80])) ips)"
proof (induction ips arbitrary: w)
  case Nil show ?case by simp
next
  case (Cons ip ips)
  obtain i p where ip: "ip = (i, p)" by (cases ip)
  obtain x w1 where g: "generate_panel_image (failing_for_panel k two_images_response) any_bytes p (i + 1) w = (x, w1)"
    by (cases "generate_panel_image (failing_for_panel k two_images_response) any_bytes p (i + 1) w")
  with generate_panel_image_failing_for_panel [of k p "i + 1" w]
  have x: "x = Inr (if i + 1 = k then None else Some (Opened [137, 80]))" by simp
  show ?case
  proof (cases "i + 1 = k")
    case True
    obtain y w3 where r: "generate_panels (failing_for_panel k two_images_response) any_bytes ips w1 = (y, w3)"
      by (cases "generate_panels (failing_for_panel k two_images_response) any_bytes ips w1")
    with Cons [of w1] have "y = Inr (map (\<lambda>ip. if fst ip + 1 = k then None else Some (Opened [137, 80])) ips)"
      by simp
    with g x r True show ?thesis by (simp add: ip del: One_nat_def)
  next
    case False
    define w2 where "w2 = w1\<lparr>temp_dir := put_file (''panel_'' @ py_str_nat (i + 1) @ ''.png'') (Opened [137, 80]) (temp_dir w1)\<rparr>"
    obtain y w3 where r: "generate_panels (failing_for_panel k two_images_response) any_bytes ips w2 = (y, w3)"
      by (cases "generate_panels (failing_for_panel k two_images_response) any_bytes ips w2")
    with Cons [of w2] have "y = Inr (map (\<lambda>ip. if fst ip + 1 = k then None else Some (Opened [137, 80])) ips)"
      by simp
    with g x r False show ?thesis by (simp add: ip w2_def del: One_nat_def)
  qed
qed

lemma generate_panels_failing:
  "fst (generate_panels failing r ips w) = Inr (map (\<lambda>ip. None) ips)"
proof (induction ips arbitrary: w)
  case Nil show ?case by simp
next
  case (Cons ip ips)
  obtain i p where ip: "ip = (i, p)" by (cases ip)
  obtain x w1 where g: "generate_panel_image failing r p (i + 1) w = (x, w1)"
    by (cases "generate_panel_image failing r p (i + 1) w")
  with generate_panel_image_failing [of r p "i + 1" w] have x: "x = Inr None" by simp
  obtain y w3 where r: "generate_panels failing r ips w1 = (y, w3)"
    by (cases "generate_panels failing r ips w1")
  with Cons [of w1] have "y = Inr (map (\<lambda>ip. None) ips)" by simp
  with g x r show ?case by (simp add: ip del: One_nat_def)
qed

lemma six_selected:
  "length (take NUM_PANELS (numbered_feed 7)) = 6"
  "min (length (numbered_feed 7)) NUM_PANELS = 6"
  by (simp_all add: NUM_PANELS_def numbered_feed_7)

lemma upt_0_6: "[0 ..< 6] = [0, 1, 2, 3, 4, 5 :: nat]"
  by (simp add: upt_rec)

lemma enumerate_six:
  "length xs = 6 \<Longrightarrow> map (\<lambda>ip. f (fst ip)) (enumerate 0 xs) = [f 0, f 1, f 2, f 3, f 4, f 5]"
proof -
  assume l: "length xs = 6"
  have "map (\<lambda>ip. f (fst ip)) (enumerate 0 xs) = map (f \<circ> fst) (enumerate 0 xs)"
    by (simp add: comp_def)
  also have "\<dots> = map f (map fst (enumerate 0 xs))" by (simp only: map_map)
  also have "\<dots> = map f [0 ..< 6]" using l by (simp only: map_fst_enumerate) simp
  also have "\<dots> = map f [0, 1, 2, 3, 4, 5]" by (simp only: upt_0_6)
  also have "\<dots> = [f 0, f 1, f 2, f 3, f 4, f 5]" by (simp only: list.map)
  finally show ?thesis .
qed

lemma panels_five_of_six:
  assumes "length prompts = 6"
  shows "fst (generate_panels (failing_for_panel 4 two_images_response) any_bytes (enumerate 0 prompts) w)
     = Inr [Some (Opened [137, 80]), Some (Opened [137, 80]), Some (Opened [137, 80]), None,
            Some (Opened [137, 80]), Some (Opened [137, 80])]"
  using enumerate_six [OF assms, of "\<lambda>i. if i + 1 = 4 then None else Some (Opened [137, 80])"]
  by (simp add: generate_panels_failing_for_panel)

lemma panels_none_of_six:
  assumes "length prompts = 6"
  shows "fst (generate_panels failing any_bytes (enumerate 0 prompts) w)
     = Inr [None, None, None, None, None, None]"
  using enumerate_six [OF assms, of "\<lambda>i. None"]
  by (simp add: generate_panels_failing)

lemma iso_date_example: "iso_date ''2026-01-16''"
  by (simp add: iso_date_def is_digit_def)

theorem main_gate_witness:
  "(\<exists>md w'. main (studio (failing_for_panel 4 two_images_response)) ''2026-01-16'' ''January 16, 2026''
               empty_world = (Inr md, w')
        \<and> read_file (web_jsons w') (''2026-01-16'' @ ''.json'') = Some md)
   \<and> (\<exists>w'. main (studio failing) ''2026-01-16'' ''January 16, 2026'' empty_world
              = (Inl (RuntimeError (shortfall_message 0)), w')
        \<and> published_files w' = published_files empty_world)"
proof -
  let ?sel = "take NUM_PANELS (numbered_feed 7)"
  let ?prompts = "map (\<lambda>s. STYLE_PREFIX @ '' none'') ?sel"
  have l: "length ?prompts = 6" by (simp add: six_selected)
  have A: "\<exists>md w'. main (studio (failing_for_panel 4 two_images_response)) ''2026-01-16''
               ''January 16, 2026'' empty_world = (Inr md, w')
        \<and> read_file (web_jsons w') (''2026-01-16'' @ ''.json'') = Some md"
  proof -
    let ?sv = "studio (failing_for_panel 4 two_images_response)"
    have sel: "select_stories (text_service ?sv) (feed ?sv) = Inr ?sel"
      by (simp add: studio_def select_fallback_none)
    have pr: "collect (map (generate_image_prompt (text_service ?sv)) ?sel) = Inr ?prompts"
      by (simp add: studio_def prompts_none)
    from main_gate [OF sel pr iso_date_example, of empty_world "''January 16, 2026''"]
    obtain panels w1 where
      gp: "generate_panels (image_service ?sv) (recognised_bytes ?sv) (enumerate 0 ?prompts) empty_world
             = (Inr panels, w1)"
      and ok: "MIN_PANELS_REQUIRED \<le> successful panels \<longrightarrow>
         (\<exists>md w'. main ?sv ''2026-01-16'' ''January 16, 2026'' empty_world = (Inr md, w')
            \<and> read_file (web_jsons w') (''2026-01-16'' @ ''.json'') = Some md)"
      by blast
    from gp panels_five_of_six [OF l, of empty_world]
    have "panels = [Some (Opened [137, 80]), Some (Opened [137, 80]), Some (Opened [137, 80]), None,
            Some (Opened [137, 80]), Some (Opened [137, 80])]"
      by (simp add: studio_def)
    then have "MIN_PANELS_REQUIRED \<le> successful panels"
      by (simp add: successful_def MIN_PANELS_REQUIRED_def)
    with ok show ?thesis by blast
  qed
  have B: "\<exists>w'. main (studio failing) ''2026-01-16'' ''January 16, 2026'' empty_world
              = (Inl (RuntimeError (shortfall_message 0)), w')
        \<and> published_files w' = published_files empty_world"
  proof -
    let ?sv = "studio failing"
    have sel: "select_stories (text_service ?sv) (feed ?sv) = Inr ?sel"
      by (simp add: studio_def select_fallback_none)
    have pr: "collect (map (generate_image_prompt (text_service ?sv)) ?sel) = Inr ?prompts"
      by (simp add: studio_def prompts_none)
    from main_gate [OF sel pr iso_date_example, of empty_world "''January 16, 2026''"]
    obtain panels w1 where
      gp: "generate_panels (image_service ?sv) (recognised_bytes ?sv) (enumerate 0 ?prompts) empty_world
             = (Inr panels, w1)"
      and bad: "successful panels < MIN_PANELS_REQUIRED \<longrightarrow>
         (\<exists>w'. main ?sv ''2026-01-16'' ''January 16, 2026'' empty_world
                  = (Inl (RuntimeError (shortfall_message (successful panels))), w')
            \<and> published_files w' = published_files empty_world)"
      by blast
    from gp panels_none_of_six [OF l, of empty_world]
    have "panels = [None, None, None, None, None, None]"
      by (simp add: studio_def)
    then have "successful panels = 0"
      by (simp add: successful_def)
    with bad show ?thesis by (simp add: MIN_PANELS_REQUIRED_def)
  qed
  from A B show ?thesis by blast
qed

lemma main_five_of_six_runs:
  "\<exists>md w'. main (studio (failing_for_panel 4 two_images_response)) ''2026-01-16'' ''January 16, 2026''
               empty_world = (Inr md, w')"
proof -
  let ?sv = "studio (failing_for_panel 4 two_images_response)"
  let ?sel = "take NUM_PANELS (numbered_feed 7)"
  let ?prompts = "map (\<lambda>s. STYLE_PREFIX @ '' none'') ?sel"
  have l: "length ?prompts = 6" by (simp add: six_selected)
  have sel: "select_stories (text_service ?sv) (feed ?sv) = Inr ?sel"
    by (simp add: studio_def select_fallback_none)
  have pr: "collect (map (generate_image_prompt (text_service ?sv)) ?sel) = Inr ?prompts"
    by (simp add: studio_def prompts_none)
  obtain x w1 where gp: "generate_panels (image_service ?sv) (recognised_bytes ?sv) (enumerate 0 ?prompts) empty_world = (x, w1)"
    by (cases "generate_panels (image_service ?sv) (recognised_bytes ?sv) (enumerate 0 ?prompts) empty_world")
  with panels_five_of_six [OF l, of empty_world]
  have x: "x = Inr [Some (Opened [137, 80]), Some (Opened [137, 80]), Some (Opened [137, 80]), None,
            Some (Opened [137, 80]), Some (Opened [137, 80])]"
    by (simp add: studio_def)
  from main_unfold [OF sel pr gp [unfolded x], of "''2026-01-16''" "''January 16, 2026''"]
  show ?thesis
    by (simp add: successful_def MIN_PANELS_REQUIRED_def)
qed

theorem main_metadata_witness:
  "\<exists>md w'. main (studio (failing_for_panel 4 two_images_response)) ''2026-01-16'' ''January 16, 2026''
               empty_world = (Inr md, w')
     \<and> length (stories md) = 6
     \<and> stories md ! 3 = \<lparr>panel = 4, entry_title = ''4'', summary = [], source_url = []\<rparr>
     \<and> read_file (web_jsons w') ''latest.json'' = Some md"
proof -
  let ?sv = "studio (failing_for_panel 4 two_images_response)"
  let ?sel = "take NUM_PANELS (numbered_feed 7)"
  let ?prompts = "map (\<lambda>s. STYLE_PREFIX @ '' none'') ?sel"
  have sel: "select_stories (text_service ?sv) (feed ?sv) = Inr ?sel"
    by (simp add: studio_def select_fallback_none)
  have pr: "collect (map (generate_image_prompt (text_service ?sv)) ?sel) = Inr ?prompts"
    by (simp add: studio_def prompts_none)
  from main_five_of_six_runs obtain md w' where
    run: "main ?sv ''2026-01-16'' ''January 16, 2026'' empty_world = (Inr md, w')" by blast
  note t = main_metadata [OF sel pr run]
  have n: "?sel ! 3 = \<lparr>title = ''4'', description = [], link = [], published = []\<rparr>"
    by (simp add: NUM_PANELS_def numbered_feed_def upt_rec digit_char_def)
  from t have "length (stories md) = 6" by (simp add: six_selected)
  moreover have "stories md ! 3 = \<lparr>panel = 3 + 1, entry_title = title (?sel ! 3),
        summary = description (?sel ! 3), source_url = link (?sel ! 3)\<rparr>"
  proof -
    from t have q: "\<forall>i < length ?sel. stories md ! i = \<lparr>panel = i + 1, entry_title = title (?sel ! i),
        summary = description (?sel ! i), source_url = link (?sel ! i)\<rparr>" by blast
    have "3 < length ?sel" by (simp add: six_selected)
    with q show ?thesis by blast
  qed
  then have "stories md ! 3 = \<lparr>panel = 4, entry_title = ''4'', summary = [], source_url = []\<rparr>"
    by (simp add: n)
  moreover from t have "read_file (web_jsons w') ''latest.json'' = Some md" by blast
  ultimately show ?thesis using run by blast
qed

end
